theory Spec2Isabelle
  imports Main
begin

section \<open>Data model: the two tables\<close>

text \<open>
  A row of the table \<^verbatim>\<open>AffirmationCollections\<close> and a row of the table
  \<^verbatim>\<open>Affirmations\<close>, column by column. An optional text column is a
  \<open>string option\<close> (\<open>None\<close> for SQL NULL; a JavaScript \<^verbatim>\<open>undefined\<close>
  written into such a column is stored as NULL, so both are \<open>None\<close>). A date is
  the number of milliseconds a JavaScript \<^verbatim>\<open>Date\<close> holds. Field names carry
  the prefix \<open>c_\<close> or \<open>a_\<close> because the two tables share column names.
\<close>

record collection =
  c_id :: string
  c_userId :: string
  c_name :: string
  c_description :: "string option"
  c_icon :: "string option"
  c_isDefault :: bool
  c_createdAt :: int
  c_updatedAt :: int

record affirmation =
  a_id :: string
  a_collectionId :: "string option"
  a_userId :: string
  a_text :: string
  a_category :: "string option"
  a_language :: "string option"
  a_tags :: "string option"
  a_useTimeOfDay :: "string option"
  a_isFavorite :: bool
  a_isSystem :: bool
  a_createdAt :: int
  a_updatedAt :: int

section \<open>The persistence store\<close>

text \<open>
  Modelled from the spec: the persistence store (\<^verbatim>\<open>db\<close>, imported from
  \<^verbatim>\<open>astro:db\<close>; its code is not part of the source), "a persistence store offering
  insert/select/update/delete-with-filter operations over two tables", where "the schema
  of the two tables is exactly the Data Model, with collectionId as a nullable foreign
  reference to the collection's id". It is the two tables in storage order, with the four
  operations the handlers call: insert a row, select the rows a filter accepts, update
  the rows a filter accepts, delete the rows a filter accepts. Every call is recorded in
  \<open>calls\<close>, in the order the handler makes them, so that which store calls were made, and
  in which order, is part of the state.

  The store enforces the reference that the table definition declares on
  \<^verbatim>\<open>Affirmations.collectionId\<close>: a statement that would leave an affirmation pointing at
  an id no collection has is refused as a whole, changes no row, and makes the handler
  fail with \<open>INTERNAL_SERVER_ERROR\<close> (the error an exception that is not an action error
  surfaces as). That is: inserting an affirmation whose \<^verbatim>\<open>collectionId\<close> is not null
  and is the id of no collection; updating affirmations with a \<^verbatim>\<open>collectionId\<close> in the
  \<^verbatim>\<open>set\<close> object that is not null and is the id of no collection, when a row matches;
  deleting a collection that an affirmation still points at. A null \<^verbatim>\<open>collectionId\<close>
  is exempt.

  The primary keys are not checked on insert: every id the handlers insert is the value
  of \<^verbatim>\<open>crypto.randomUUID()\<close>, "a random unique string" by the generator's contract.
  Where a statement needs the ids of a table to be unique it says so.
\<close>

datatype error = UNAUTHORIZED | NOT_FOUND | VALIDATION_ERROR | INTERNAL_SERVER_ERROR

datatype db_verb = Select | Insert | Update | Delete

datatype db_table = AffirmationCollections | Affirmations

record db =
  collections :: "collection list"
  affirmations :: "affirmation list"
  calls :: "(db_verb \<times> db_table) list"

definition called :: "db_verb \<Rightarrow> db_table \<Rightarrow> db \<Rightarrow> db" where
  "called v t s = s\<lparr>calls := calls s @ [(v, t)]\<rparr>"

text \<open>The partial objects \<^verbatim>\<open>updates\<close> handed to \<^verbatim>\<open>.set(...)\<close>: a key that is
  absent is \<open>None\<close>; \<^verbatim>\<open>updatedAt\<close> is always present.\<close>

datatype 'a nullable = Null | Val 'a

record collection_updates =
  cu_name :: "string option"
  cu_description :: "string option"
  cu_icon :: "string option"
  cu_isDefault :: "bool option"
  cu_updatedAt :: int

record affirmation_updates =
  au_text :: "string option"
  au_collectionId :: "string nullable option"
  au_category :: "string option"
  au_language :: "string option"
  au_tags :: "string option"
  au_useTimeOfDay :: "string option"
  au_isFavorite :: "bool option"
  au_updatedAt :: int

text \<open>The object spread \<^verbatim>\<open>{ ...existing, ...updates }\<close>; the store's
  \<^verbatim>\<open>update ... set(updates)\<close> overlays the same keys on each row it matches.\<close>

definition overlay :: "'a \<Rightarrow> 'a option \<Rightarrow> 'a" where
  "overlay old new = (case new of None \<Rightarrow> old | Some v \<Rightarrow> v)"

definition overlay_opt :: "'a option \<Rightarrow> 'a option \<Rightarrow> 'a option" where
  "overlay_opt old new = (case new of None \<Rightarrow> old | Some v \<Rightarrow> Some v)"

definition overlay_nullable :: "'a option \<Rightarrow> 'a nullable option \<Rightarrow> 'a option" where
  "overlay_nullable old new =
     (case new of None \<Rightarrow> old | Some Null \<Rightarrow> None | Some (Val v) \<Rightarrow> Some v)"

definition spread_collection :: "collection \<Rightarrow> collection_updates \<Rightarrow> collection" where
  "spread_collection existing u =
     existing\<lparr>c_name := overlay (c_name existing) (cu_name u),
              c_description := overlay_opt (c_description existing) (cu_description u),
              c_icon := overlay_opt (c_icon existing) (cu_icon u),
              c_isDefault := overlay (c_isDefault existing) (cu_isDefault u),
              c_updatedAt := cu_updatedAt u\<rparr>"

definition spread_affirmation :: "affirmation \<Rightarrow> affirmation_updates \<Rightarrow> affirmation" where
  "spread_affirmation existing u =
     existing\<lparr>a_text := overlay (a_text existing) (au_text u),
              a_collectionId := overlay_nullable (a_collectionId existing) (au_collectionId u),
              a_category := overlay_opt (a_category existing) (au_category u),
              a_language := overlay_opt (a_language existing) (au_language u),
              a_tags := overlay_opt (a_tags existing) (au_tags u),
              a_useTimeOfDay := overlay_opt (a_useTimeOfDay existing) (au_useTimeOfDay u),
              a_isFavorite := overlay (a_isFavorite existing) (au_isFavorite u),
              a_updatedAt := au_updatedAt u\<rparr>"

definition select_collections :: "(collection \<Rightarrow> bool) \<Rightarrow> db \<Rightarrow> collection list \<times> db" where
  "select_collections p s = (filter p (collections s), called Select AffirmationCollections s)"

definition select_affirmations :: "(affirmation \<Rightarrow> bool) \<Rightarrow> db \<Rightarrow> affirmation list \<times> db" where
  "select_affirmations p s = (filter p (affirmations s), called Select Affirmations s)"

definition insert_collection :: "collection \<Rightarrow> db \<Rightarrow> db" where
  "insert_collection r s =
     called Insert AffirmationCollections (s\<lparr>collections := collections s @ [r]\<rparr>)"

text \<open>Some collection has the given id.\<close>

definition collection_exists :: "string \<Rightarrow> db \<Rightarrow> bool" where
  "collection_exists c s = list_ex (\<lambda>r. c_id r = c) (collections s)"

definition insert_affirmation :: "affirmation \<Rightarrow> db \<Rightarrow> (error + unit) \<times> db" where
  "insert_affirmation r s =
     (if (case a_collectionId r of None \<Rightarrow> True | Some c \<Rightarrow> collection_exists c s)
      then (Inr (), called Insert Affirmations (s\<lparr>affirmations := affirmations s @ [r]\<rparr>))
      else (Inl INTERNAL_SERVER_ERROR, called Insert Affirmations s))"

definition update_collections :: "collection_updates \<Rightarrow> (collection \<Rightarrow> bool) \<Rightarrow> db \<Rightarrow> db" where
  "update_collections u p s =
     called Update AffirmationCollections
       (s\<lparr>collections := map (\<lambda>r. if p r then spread_collection r u else r) (collections s)\<rparr>)"

definition update_affirmations ::
    "affirmation_updates \<Rightarrow> (affirmation \<Rightarrow> bool) \<Rightarrow> db \<Rightarrow> (error + unit) \<times> db" where
  "update_affirmations u p s =
     (if (case au_collectionId u of
            Some (Val c) \<Rightarrow> (if list_ex p (affirmations s) then collection_exists c s else True)
          | _ \<Rightarrow> True)
      then (Inr (),
            called Update Affirmations
              (s\<lparr>affirmations :=
                   map (\<lambda>r. if p r then spread_affirmation r u else r) (affirmations s)\<rparr>))
      else (Inl INTERNAL_SERVER_ERROR, called Update Affirmations s))"

definition delete_collections :: "(collection \<Rightarrow> bool) \<Rightarrow> db \<Rightarrow> (error + unit) \<times> db" where
  "delete_collections p s =
     (if list_ex (\<lambda>r. p r \<and> list_ex (\<lambda>a. a_collectionId a = Some (c_id r)) (affirmations s))
           (collections s)
      then (Inl INTERNAL_SERVER_ERROR, called Delete AffirmationCollections s)
      else (Inr (),
            called Delete AffirmationCollections
              (s\<lparr>collections := filter (\<lambda>r. \<not> p r) (collections s)\<rparr>)))"

definition delete_affirmations :: "(affirmation \<Rightarrow> bool) \<Rightarrow> db \<Rightarrow> db" where
  "delete_affirmations p s =
     called Delete Affirmations
       (s\<lparr>affirmations := filter (\<lambda>r. \<not> p r) (affirmations s)\<rparr>)"

text \<open>\<^verbatim>\<open>and(...filters)\<close>: a row passes when every filter of the list accepts it.\<close>

definition and_filters :: "('r \<Rightarrow> bool) list \<Rightarrow> 'r \<Rightarrow> bool" where
  "and_filters fs r = list_all (\<lambda>f. f r) fs"

section \<open>The call context and the environment\<close>

record App_User =
  u_id :: string

record App_Locals =
  user :: "App_User option"

record ActionAPIContext =
  locals :: "App_Locals option"

text \<open>What \<^verbatim>\<open>crypto.randomUUID()\<close> and \<^verbatim>\<open>new Date()\<close> return during one call
  ("identifier generation" and "clock access" are external collaborators); each handler
  calls each of them at most once, so one value of each is a parameter of the call.\<close>

record env =
  randomUUID :: string
  now :: int

text \<open>\<^verbatim>\<open>locals?.user\<close>: the authenticated user the context carries, if any.\<close>

definition locals_user :: "ActionAPIContext \<Rightarrow> App_User option" where
  "locals_user context = (case locals context of None \<Rightarrow> None | Some l \<Rightarrow> user l)"

definition requireUser :: "ActionAPIContext \<Rightarrow> error + App_User" where
  "requireUser context =
     (case locals_user context of None \<Rightarrow> Inl UNAUTHORIZED | Some usr \<Rightarrow> Inr usr)"

section \<open>Raw inputs and the input schemas\<close>

text \<open>
  Modelled from the spec: the schema combinators (\<^verbatim>\<open>z\<close>, imported from
  \<^verbatim>\<open>astro:schema\<close>; their code is not part of the source). A raw input is a JavaScript
  value. A schema either rejects it ("all surfaced as a generic validation error": every
  rejection is the one error \<open>VALIDATION_ERROR\<close>) or returns the typed input the handler
  receives. Reading a key an object does not have gives \<^verbatim>\<open>undefined\<close>; keys a schema
  does not name are dropped. The schemas themselves are the ones written in the source.
\<close>

datatype json =
  JUndefined | JNull | JBool bool | JNum int | JStr string
  | JArr "json list" | JObj "(string \<times> json) list"

fun is_object :: "json \<Rightarrow> bool" where
  "is_object (JObj kvs) = True"
| "is_object _ = False"

fun field :: "json \<Rightarrow> string \<Rightarrow> json" where
  "field (JObj kvs) k = (case map_of kvs k of None \<Rightarrow> JUndefined | Some v \<Rightarrow> v)"
| "field _ k = JUndefined"

definition bindE :: "error + 'a \<Rightarrow> ('a \<Rightarrow> error + 'b) \<Rightarrow> error + 'b" where
  "bindE m f = (case m of Inl e \<Rightarrow> Inl e | Inr x \<Rightarrow> f x)"

fun z_string :: "json \<Rightarrow> error + string" where
  "z_string (JStr s) = Inr s"
| "z_string _ = Inl VALIDATION_ERROR"

definition z_string_min1 :: "json \<Rightarrow> error + string" where
  "z_string_min1 v = bindE (z_string v) (\<lambda>s. if 1 \<le> length s then Inr s else Inl VALIDATION_ERROR)"

fun z_boolean :: "json \<Rightarrow> error + bool" where
  "z_boolean (JBool b) = Inr b"
| "z_boolean _ = Inl VALIDATION_ERROR"

definition z_enum :: "string list \<Rightarrow> json \<Rightarrow> error + string" where
  "z_enum vs v = bindE (z_string v) (\<lambda>s. if s \<in> set vs then Inr s else Inl VALIDATION_ERROR)"

fun z_optional :: "(json \<Rightarrow> error + 'a) \<Rightarrow> json \<Rightarrow> error + 'a option" where
  "z_optional p JUndefined = Inr None"
| "z_optional p v = bindE (p v) (\<lambda>x. Inr (Some x))"

fun z_nullable :: "(json \<Rightarrow> error + 'a) \<Rightarrow> json \<Rightarrow> error + 'a nullable" where
  "z_nullable p JNull = Inr Null"
| "z_nullable p v = bindE (p v) (\<lambda>x. Inr (Val x))"

definition z_object :: "json \<Rightarrow> error + json" where
  "z_object v = (if is_object v then Inr v else Inl VALIDATION_ERROR)"

definition time_of_day :: "string list" where
  "time_of_day = [''morning'', ''evening'', ''any'']"

record createCollection_input =
  cc_name :: string
  cc_description :: "string option"
  cc_icon :: "string option"
  cc_isDefault :: "bool option"

record updateCollection_input =
  uc_id :: string
  uc_name :: "string option"
  uc_description :: "string option"
  uc_icon :: "string option"
  uc_isDefault :: "bool option"

record id_input =
  in_id :: string

record createAffirmation_input =
  ca_text :: string
  ca_collectionId :: "string option"
  ca_category :: "string option"
  ca_language :: "string option"
  ca_tags :: "string option"
  ca_useTimeOfDay :: "string option"
  ca_isFavorite :: "bool option"

record updateAffirmation_input =
  ua_id :: string
  ua_text :: "string option"
  ua_collectionId :: "string nullable option"
  ua_category :: "string option"
  ua_language :: "string option"
  ua_tags :: "string option"
  ua_useTimeOfDay :: "string option"
  ua_isFavorite :: "bool option"

record listAffirmations_input =
  la_collectionId :: "string option"
  la_favoritesOnly :: "bool option"

definition createCollectionSchema :: "json \<Rightarrow> error + createCollection_input" where
  "createCollectionSchema raw =
     bindE (z_object raw) (\<lambda>obj.
     bindE (z_string_min1 (field obj ''name'')) (\<lambda>n.
     bindE (z_optional z_string (field obj ''description'')) (\<lambda>d.
     bindE (z_optional z_string (field obj ''icon'')) (\<lambda>i.
     bindE (z_optional z_boolean (field obj ''isDefault'')) (\<lambda>b.
     Inr \<lparr>cc_name = n, cc_description = d, cc_icon = i, cc_isDefault = b\<rparr>)))))"

definition updateCollectionSchema :: "json \<Rightarrow> error + updateCollection_input" where
  "updateCollectionSchema raw =
     bindE (z_object raw) (\<lambda>obj.
     bindE (z_string (field obj ''id'')) (\<lambda>k.
     bindE (z_optional z_string_min1 (field obj ''name'')) (\<lambda>n.
     bindE (z_optional z_string (field obj ''description'')) (\<lambda>d.
     bindE (z_optional z_string (field obj ''icon'')) (\<lambda>i.
     bindE (z_optional z_boolean (field obj ''isDefault'')) (\<lambda>b.
     if n \<noteq> None \<or> d \<noteq> None \<or> i \<noteq> None \<or> b \<noteq> None
     then Inr \<lparr>uc_id = k, uc_name = n, uc_description = d, uc_icon = i, uc_isDefault = b\<rparr>
     else Inl VALIDATION_ERROR))))))"

definition idSchema :: "json \<Rightarrow> error + id_input" where
  "idSchema raw =
     bindE (z_object raw) (\<lambda>obj.
     bindE (z_string (field obj ''id'')) (\<lambda>k. Inr \<lparr>in_id = k\<rparr>))"

definition listCollectionsSchema :: "json \<Rightarrow> error + unit option" where
  "listCollectionsSchema raw = z_optional (\<lambda>v. bindE (z_object v) (\<lambda>obj. Inr ())) raw"

definition createAffirmationSchema :: "json \<Rightarrow> error + createAffirmation_input" where
  "createAffirmationSchema raw =
     bindE (z_object raw) (\<lambda>obj.
     bindE (z_string_min1 (field obj ''text'')) (\<lambda>t.
     bindE (z_optional z_string (field obj ''collectionId'')) (\<lambda>c.
     bindE (z_optional z_string (field obj ''category'')) (\<lambda>g.
     bindE (z_optional z_string (field obj ''language'')) (\<lambda>l.
     bindE (z_optional z_string (field obj ''tags'')) (\<lambda>ts.
     bindE (z_optional (z_enum time_of_day) (field obj ''useTimeOfDay'')) (\<lambda>d.
     bindE (z_optional z_boolean (field obj ''isFavorite'')) (\<lambda>f.
     Inr \<lparr>ca_text = t, ca_collectionId = c, ca_category = g, ca_language = l,
          ca_tags = ts, ca_useTimeOfDay = d, ca_isFavorite = f\<rparr>))))))))"

definition updateAffirmationSchema :: "json \<Rightarrow> error + updateAffirmation_input" where
  "updateAffirmationSchema raw =
     bindE (z_object raw) (\<lambda>obj.
     bindE (z_string (field obj ''id'')) (\<lambda>k.
     bindE (z_optional z_string_min1 (field obj ''text'')) (\<lambda>t.
     bindE (z_optional (z_nullable z_string) (field obj ''collectionId'')) (\<lambda>c.
     bindE (z_optional z_string (field obj ''category'')) (\<lambda>g.
     bindE (z_optional z_string (field obj ''language'')) (\<lambda>l.
     bindE (z_optional z_string (field obj ''tags'')) (\<lambda>ts.
     bindE (z_optional (z_enum time_of_day) (field obj ''useTimeOfDay'')) (\<lambda>d.
     bindE (z_optional z_boolean (field obj ''isFavorite'')) (\<lambda>f.
     if t \<noteq> None \<or> c \<noteq> None \<or> g \<noteq> None \<or> l \<noteq> None \<or> ts \<noteq> None \<or> d \<noteq> None \<or> f \<noteq> None
     then Inr \<lparr>ua_id = k, ua_text = t, ua_collectionId = c, ua_category = g, ua_language = l,
               ua_tags = ts, ua_useTimeOfDay = d, ua_isFavorite = f\<rparr>
     else Inl VALIDATION_ERROR)))))))))"

definition listAffirmationsSchema :: "json \<Rightarrow> error + listAffirmations_input option" where
  "listAffirmationsSchema raw =
     z_optional (\<lambda>v.
       bindE (z_object v) (\<lambda>obj.
       bindE (z_optional z_string (field obj ''collectionId'')) (\<lambda>c.
       bindE (z_optional z_boolean (field obj ''favoritesOnly'')) (\<lambda>f.
       Inr \<lparr>la_collectionId = c, la_favoritesOnly = f\<rparr>)))) raw"

section \<open>The handlers\<close>

text \<open>
  The success envelope \<^verbatim>\<open>{ success: true, data?: ... }\<close>: its \<^verbatim>\<open>data\<close>, or
  \<open>NoData\<close> for the bare \<^verbatim>\<open>{ success: true }\<close>. A thrown error is \<open>Inl\<close>; a store
  call that the store refuses throws out of the handler at its \<^verbatim>\<open>await\<close>. A handler
  returns its result together with the store it leaves behind: store calls made before
  a throw stay made, and there is no rollback.
\<close>

datatype payload =
  CollectionData collection
  | AffirmationData affirmation
  | CollectionItems "collection list" nat
  | AffirmationItems "affirmation list" nat
  | NoData

type_synonym 'i handler = "'i \<Rightarrow> ActionAPIContext \<Rightarrow> db \<Rightarrow> (error + payload) \<times> db"

text \<open>JavaScript truthiness of the values the guards test: a string is truthy when it
  is not empty; \<^verbatim>\<open>undefined\<close>, \<^verbatim>\<open>null\<close> and \<^verbatim>\<open>false\<close> are falsy.\<close>

fun truthy_string :: "string option \<Rightarrow> bool" where
  "truthy_string None = False"
| "truthy_string (Some s) = (s \<noteq> [])"

fun truthy_nullable_string :: "string nullable option \<Rightarrow> bool" where
  "truthy_nullable_string (Some (Val s)) = (s \<noteq> [])"
| "truthy_nullable_string _ = False"

fun truthy_bool :: "bool option \<Rightarrow> bool" where
  "truthy_bool (Some b) = b"
| "truthy_bool None = False"

text \<open>The destructuring \<^verbatim>\<open>const [existing] = rows\<close> followed by
  \<^verbatim>\<open>if (!existing) throw NOT_FOUND\<close>.\<close>

fun first_or_not_found :: "'r list \<Rightarrow> error + 'r" where
  "first_or_not_found [] = Inl NOT_FOUND"
| "first_or_not_found (existing # rest) = Inr existing"

definition createCollection_handler :: "env \<Rightarrow> createCollection_input handler" where
  "createCollection_handler e input context s =
     (case requireUser context of
        Inl err \<Rightarrow> (Inl err, s)
      | Inr usr \<Rightarrow>
          let collection =
                \<lparr>c_id = randomUUID e,
                 c_userId = u_id usr,
                 c_name = cc_name input,
                 c_description = cc_description input,
                 c_icon = cc_icon input,
                 c_isDefault = (case cc_isDefault input of None \<Rightarrow> False | Some b \<Rightarrow> b),
                 c_createdAt = now e,
                 c_updatedAt = now e\<rparr>
          in (Inr (CollectionData collection), insert_collection collection s))"

definition updateCollection_handler :: "env \<Rightarrow> updateCollection_input handler" where
  "updateCollection_handler e input context s =
     (case requireUser context of
        Inl err \<Rightarrow> (Inl err, s)
      | Inr usr \<Rightarrow>
          (case select_collections
                  (\<lambda>r. c_id r = uc_id input \<and> c_userId r = u_id usr) s of
             (rows, s1) \<Rightarrow>
               (case first_or_not_found rows of
                  Inl err \<Rightarrow> (Inl err, s1)
                | Inr existing \<Rightarrow>
                    let updates =
                          \<lparr>cu_name = uc_name input,
                           cu_description = uc_description input,
                           cu_icon = uc_icon input,
                           cu_isDefault = uc_isDefault input,
                           cu_updatedAt = now e\<rparr>;
                        s2 = update_collections updates
                               (\<lambda>r. c_id r = uc_id input \<and> c_userId r = u_id usr) s1
                    in (Inr (CollectionData (spread_collection existing updates)), s2))))"

definition deleteCollection_handler :: "env \<Rightarrow> id_input handler" where
  "deleteCollection_handler e input context s =
     (case requireUser context of
        Inl err \<Rightarrow> (Inl err, s)
      | Inr usr \<Rightarrow>
          (case select_collections
                  (\<lambda>r. c_id r = in_id input \<and> c_userId r = u_id usr) s of
             (rows, s1) \<Rightarrow>
               (case first_or_not_found rows of
                  Inl err \<Rightarrow> (Inl err, s1)
                | Inr existing \<Rightarrow>
                    let s2 = delete_affirmations
                               (\<lambda>r. a_collectionId r = Some (in_id input) \<and> a_userId r = u_id usr) s1
                    in (case delete_collections
                               (\<lambda>r. c_id r = in_id input \<and> c_userId r = u_id usr) s2 of
                          (Inl err, s3) \<Rightarrow> (Inl err, s3)
                        | (Inr ok, s3) \<Rightarrow> (Inr NoData, s3)))))"

definition listCollections_handler :: "env \<Rightarrow> unit option handler" where
  "listCollections_handler e input context s =
     (case requireUser context of
        Inl err \<Rightarrow> (Inl err, s)
      | Inr usr \<Rightarrow>
          (case select_collections (\<lambda>r. c_userId r = u_id usr) s of
             (rows, s1) \<Rightarrow> (Inr (CollectionItems rows (length rows)), s1)))"

text \<open>In the two affirmation handlers the guard \<^verbatim>\<open>if (input.collectionId) { ... }\<close>
  either throws, or falls through to the rest of the handler with the store as the
  guard left it. Inside the guard the collection id is a string, so
  \<^verbatim>\<open>eq(AffirmationCollections.id, input.collectionId)\<close> compares the row's id with
  that string.\<close>

definition createAffirmation_handler :: "env \<Rightarrow> createAffirmation_input handler" where
  "createAffirmation_handler e input context s =
     (case requireUser context of
        Inl err \<Rightarrow> (Inl err, s)
      | Inr usr \<Rightarrow>
          (case (if truthy_string (ca_collectionId input) then
                   (case select_collections
                           (\<lambda>r. Some (c_id r) = ca_collectionId input \<and> c_userId r = u_id usr) s of
                      (rows, s1) \<Rightarrow>
                        (case first_or_not_found rows of
                           Inl err \<Rightarrow> (Inl err, s1)
                         | Inr collection \<Rightarrow> (Inr (), s1)))
                 else (Inr (), s)) of
             (Inl err, s1) \<Rightarrow> (Inl err, s1)
           | (Inr ok, s1) \<Rightarrow>
               let affirmation =
                     \<lparr>a_id = randomUUID e,
                      a_collectionId = (case ca_collectionId input of None \<Rightarrow> None | Some c \<Rightarrow> Some c),
                      a_userId = u_id usr,
                      a_text = ca_text input,
                      a_category = ca_category input,
                      a_language = ca_language input,
                      a_tags = ca_tags input,
                      a_useTimeOfDay = ca_useTimeOfDay input,
                      a_isFavorite = (case ca_isFavorite input of None \<Rightarrow> False | Some b \<Rightarrow> b),
                      a_isSystem = False,
                      a_createdAt = now e,
                      a_updatedAt = now e\<rparr>
               in (case insert_affirmation affirmation s1 of
                     (Inl err, s2) \<Rightarrow> (Inl err, s2)
                   | (Inr inserted, s2) \<Rightarrow> (Inr (AffirmationData affirmation), s2))))"

definition updateAffirmation_handler :: "env \<Rightarrow> updateAffirmation_input handler" where
  "updateAffirmation_handler e input context s =
     (case requireUser context of
        Inl err \<Rightarrow> (Inl err, s)
      | Inr usr \<Rightarrow>
          (case select_affirmations
                  (\<lambda>r. a_id r = ua_id input \<and> a_userId r = u_id usr) s of
             (rows, s1) \<Rightarrow>
               (case first_or_not_found rows of
                  Inl err \<Rightarrow> (Inl err, s1)
                | Inr existing \<Rightarrow>
                    (case (if truthy_nullable_string (ua_collectionId input) then
                             (case select_collections
                                     (\<lambda>r. Some (Val (c_id r)) = ua_collectionId input
                                          \<and> c_userId r = u_id usr) s1 of
                                (crows, s2) \<Rightarrow>
                                  (case first_or_not_found crows of
                                     Inl err \<Rightarrow> (Inl err, s2)
                                   | Inr collection \<Rightarrow> (Inr (), s2)))
                           else (Inr (), s1)) of
                       (Inl err, s2) \<Rightarrow> (Inl err, s2)
                     | (Inr ok, s2) \<Rightarrow>
                         let updates =
                               \<lparr>au_text = ua_text input,
                                au_collectionId = ua_collectionId input,
                                au_category = ua_category input,
                                au_language = ua_language input,
                                au_tags = ua_tags input,
                                au_useTimeOfDay = ua_useTimeOfDay input,
                                au_isFavorite = ua_isFavorite input,
                                au_updatedAt = now e\<rparr>
                         in (case update_affirmations updates
                                    (\<lambda>r. a_id r = ua_id input \<and> a_userId r = u_id usr) s2 of
                               (Inl err, s3) \<Rightarrow> (Inl err, s3)
                             | (Inr updated, s3) \<Rightarrow>
                                 (Inr (AffirmationData (spread_affirmation existing updates)),
                                  s3))))))"

definition deleteAffirmation_handler :: "env \<Rightarrow> id_input handler" where
  "deleteAffirmation_handler e input context s =
     (case requireUser context of
        Inl err \<Rightarrow> (Inl err, s)
      | Inr usr \<Rightarrow>
          (case select_affirmations
                  (\<lambda>r. a_id r = in_id input \<and> a_userId r = u_id usr) s of
             (rows, s1) \<Rightarrow>
               (case first_or_not_found rows of
                  Inl err \<Rightarrow> (Inl err, s1)
                | Inr existing \<Rightarrow>
                    (Inr NoData,
                     delete_affirmations
                       (\<lambda>r. a_id r = in_id input \<and> a_userId r = u_id usr) s1))))"

text \<open>\<^verbatim>\<open>input?.collectionId\<close> and \<^verbatim>\<open>input?.favoritesOnly\<close> on an input that may be
  \<^verbatim>\<open>undefined\<close> as a whole.\<close>

definition listAffirmations_filters ::
    "listAffirmations_input option \<Rightarrow> App_User \<Rightarrow> (affirmation \<Rightarrow> bool) list" where
  "listAffirmations_filters input usr =
     (let collectionId = (case input of None \<Rightarrow> None | Some i \<Rightarrow> la_collectionId i);
          favoritesOnly = (case input of None \<Rightarrow> None | Some i \<Rightarrow> la_favoritesOnly i);
          filters0 = [\<lambda>r. a_userId r = u_id usr];
          filters1 = (if truthy_string collectionId
                      then filters0 @ [\<lambda>r. a_collectionId r = collectionId]
                      else filters0);
          filters2 = (if truthy_bool favoritesOnly
                      then filters1 @ [\<lambda>r. a_isFavorite r = True]
                      else filters1)
      in filters2)"

definition listAffirmations_handler :: "env \<Rightarrow> listAffirmations_input option handler" where
  "listAffirmations_handler e input context s =
     (case requireUser context of
        Inl err \<Rightarrow> (Inl err, s)
      | Inr usr \<Rightarrow>
          (case select_affirmations (and_filters (listAffirmations_filters input usr)) s of
             (rows, s1) \<Rightarrow> (Inr (AffirmationItems rows (length rows)), s1)))"

section \<open>The exported actions\<close>

text \<open>
  Modelled from the spec: \<^verbatim>\<open>defineAction({ input, handler })\<close> (imported from
  \<^verbatim>\<open>astro:actions\<close>; its code is not part of the source). The raw input is parsed
  against the schema first, and the handler runs on the parsed input only when parsing
  succeeds: the handler's \<^verbatim>\<open>input\<close> is the typed value, and an update with no optional
  field "fails validation regardless of caller identity".
\<close>

definition defineAction ::
    "(json \<Rightarrow> error + 'i) \<Rightarrow> 'i handler \<Rightarrow> json \<Rightarrow> ActionAPIContext \<Rightarrow> db \<Rightarrow> (error + payload) \<times> db" where
  "defineAction schema h raw context s =
     (case schema raw of Inl err \<Rightarrow> (Inl err, s) | Inr input \<Rightarrow> h input context s)"

datatype action =
  createCollection | updateCollection | deleteCollection | listCollections
  | createAffirmation | updateAffirmation | deleteAffirmation | listAffirmations

fun server :: "action \<Rightarrow> env \<Rightarrow> json \<Rightarrow> ActionAPIContext \<Rightarrow> db \<Rightarrow> (error + payload) \<times> db" where
  "server createCollection e = defineAction createCollectionSchema (createCollection_handler e)"
| "server updateCollection e = defineAction updateCollectionSchema (updateCollection_handler e)"
| "server deleteCollection e = defineAction idSchema (deleteCollection_handler e)"
| "server listCollections e = defineAction listCollectionsSchema (listCollections_handler e)"
| "server createAffirmation e = defineAction createAffirmationSchema (createAffirmation_handler e)"
| "server updateAffirmation e = defineAction updateAffirmationSchema (updateAffirmation_handler e)"
| "server deleteAffirmation e = defineAction idSchema (deleteAffirmation_handler e)"
| "server listAffirmations e = defineAction listAffirmationsSchema (listAffirmations_handler e)"

section \<open>Valid inputs and sample data\<close>

text \<open>A raw input is valid for an action when the action's schema accepts it.\<close>

fun valid_input :: "action \<Rightarrow> json \<Rightarrow> bool" where
  "valid_input createCollection raw = (\<not> isl (createCollectionSchema raw))"
| "valid_input updateCollection raw = (\<not> isl (updateCollectionSchema raw))"
| "valid_input deleteCollection raw = (\<not> isl (idSchema raw))"
| "valid_input listCollections raw = (\<not> isl (listCollectionsSchema raw))"
| "valid_input createAffirmation raw = (\<not> isl (createAffirmationSchema raw))"
| "valid_input updateAffirmation raw = (\<not> isl (updateAffirmationSchema raw))"
| "valid_input deleteAffirmation raw = (\<not> isl (idSchema raw))"
| "valid_input listAffirmations raw = (\<not> isl (listAffirmationsSchema raw))"

text \<open>Concrete contexts, environments and stores for the examples below.\<close>

definition anonymous :: ActionAPIContext where
  "anonymous = \<lparr>locals = Some \<lparr>user = None\<rparr>\<rparr>"

definition signed_in :: "string \<Rightarrow> ActionAPIContext" where
  "signed_in uid = \<lparr>locals = Some \<lparr>user = Some \<lparr>u_id = uid\<rparr>\<rparr>\<rparr>"

definition empty_db :: db where
  "empty_db = \<lparr>collections = [], affirmations = [], calls = []\<rparr>"

definition env1 :: env where
  "env1 = \<lparr>randomUUID = ''id-1'', now = 1000\<rparr>"

definition col_alice :: collection where
  "col_alice = \<lparr>c_id = ''c-alice'', c_userId = ''alice'', c_name = ''Confidence'',
                 c_description = None, c_icon = None, c_isDefault = False,
                 c_createdAt = 10, c_updatedAt = 10\<rparr>"

definition col_bob :: collection where
  "col_bob = \<lparr>c_id = ''c-bob'', c_userId = ''bob'', c_name = ''Morning'',
               c_description = Some ''start of day'', c_icon = None, c_isDefault = True,
               c_createdAt = 11, c_updatedAt = 11\<rparr>"

definition aff_alice :: affirmation where
  "aff_alice = \<lparr>a_id = ''a-alice'', a_collectionId = Some ''c-alice'', a_userId = ''alice'',
                 a_text = ''I am capable'', a_category = Some ''confidence'',
                 a_language = Some ''en'', a_tags = None, a_useTimeOfDay = Some ''any'',
                 a_isFavorite = True, a_isSystem = False,
                 a_createdAt = 20, a_updatedAt = 20\<rparr>"

definition aff_bob1 :: affirmation where
  "aff_bob1 = \<lparr>a_id = ''a-bob-1'', a_collectionId = Some ''c-bob'', a_userId = ''bob'',
                a_text = ''I rise early'', a_category = Some ''health'',
                a_language = Some ''en'', a_tags = Some ''sun,day'',
                a_useTimeOfDay = Some ''morning'',
                a_isFavorite = False, a_isSystem = False,
                a_createdAt = 21, a_updatedAt = 21\<rparr>"

definition aff_bob2 :: affirmation where
  "aff_bob2 = \<lparr>a_id = ''a-bob-2'', a_collectionId = None, a_userId = ''bob'',
                a_text = ''I am calm'', a_category = None,
                a_language = None, a_tags = None, a_useTimeOfDay = None,
                a_isFavorite = True, a_isSystem = False,
                a_createdAt = 22, a_updatedAt = 22\<rparr>"

text \<open>A row of another user that points at bob's collection (no handler writes such a
  row; the table can hold one).\<close>

definition aff_alice_in_bob :: affirmation where
  "aff_alice_in_bob = \<lparr>a_id = ''a-alice-2'', a_collectionId = Some ''c-bob'', a_userId = ''alice'',
                a_text = ''I am here'', a_category = None,
                a_language = None, a_tags = None, a_useTimeOfDay = None,
                a_isFavorite = False, a_isSystem = True,
                a_createdAt = 23, a_updatedAt = 23\<rparr>"

definition db1 :: db where
  "db1 = \<lparr>collections = [col_alice, col_bob],
           affirmations = [aff_alice, aff_bob1, aff_bob2, aff_alice_in_bob],
           calls = []\<rparr>"

text \<open>A store in which a collection has the empty string as its id (no handler writes
  such a row; the table can hold one).\<close>

definition col_empty_id :: collection where
  "col_empty_id = \<lparr>c_id = [], c_userId = ''bob'', c_name = ''Evening'',
                    c_description = None, c_icon = None, c_isDefault = False,
                    c_createdAt = 12, c_updatedAt = 12\<rparr>"

definition db_empty_id :: db where
  "db_empty_id = \<lparr>collections = [col_empty_id], affirmations = [aff_bob2], calls = []\<rparr>"

text \<open>Names for the object literals the handlers build: the row of a create and the
  \<^verbatim>\<open>updates\<close> object of an update.\<close>

abbreviation created_collection :: "env \<Rightarrow> App_User \<Rightarrow> createCollection_input \<Rightarrow> collection" where
  "created_collection e usr input \<equiv>
     \<lparr>c_id = randomUUID e, c_userId = u_id usr, c_name = cc_name input,
      c_description = cc_description input, c_icon = cc_icon input,
      c_isDefault = (case cc_isDefault input of None \<Rightarrow> False | Some b \<Rightarrow> b),
      c_createdAt = now e, c_updatedAt = now e\<rparr>"

abbreviation created_affirmation :: "env \<Rightarrow> App_User \<Rightarrow> createAffirmation_input \<Rightarrow> affirmation" where
  "created_affirmation e usr input \<equiv>
     \<lparr>a_id = randomUUID e,
      a_collectionId = (case ca_collectionId input of None \<Rightarrow> None | Some c \<Rightarrow> Some c),
      a_userId = u_id usr, a_text = ca_text input, a_category = ca_category input,
      a_language = ca_language input, a_tags = ca_tags input,
      a_useTimeOfDay = ca_useTimeOfDay input,
      a_isFavorite = (case ca_isFavorite input of None \<Rightarrow> False | Some b \<Rightarrow> b),
      a_isSystem = False, a_createdAt = now e, a_updatedAt = now e\<rparr>"

abbreviation collection_updates_of :: "env \<Rightarrow> updateCollection_input \<Rightarrow> collection_updates" where
  "collection_updates_of e input \<equiv>
     \<lparr>cu_name = uc_name input, cu_description = uc_description input,
      cu_icon = uc_icon input, cu_isDefault = uc_isDefault input, cu_updatedAt = now e\<rparr>"

abbreviation affirmation_updates_of :: "env \<Rightarrow> updateAffirmation_input \<Rightarrow> affirmation_updates" where
  "affirmation_updates_of e input \<equiv>
     \<lparr>au_text = ua_text input, au_collectionId = ua_collectionId input,
      au_category = ua_category input, au_language = ua_language input,
      au_tags = ua_tags input, au_useTimeOfDay = ua_useTimeOfDay input,
      au_isFavorite = ua_isFavorite input, au_updatedAt = now e\<rparr>"

text \<open>An environment whose clock reads the very millisecond at which the sample row
  \<open>aff_bob1\<close> was last updated.\<close>

definition env_same_ms :: env where
  "env_same_ms = \<lparr>randomUUID = ''id-2'', now = 21\<rparr>"

section \<open>Ownership of rows\<close>

text \<open>Every row a success payload carries is owned by the given user.\<close>

fun payload_owned_by :: "string \<Rightarrow> payload \<Rightarrow> bool" where
  "payload_owned_by uid (CollectionData c) = (c_userId c = uid)"
| "payload_owned_by uid (AffirmationData a) = (a_userId a = uid)"
| "payload_owned_by uid (CollectionItems rows n) = list_all (\<lambda>r. c_userId r = uid) rows"
| "payload_owned_by uid (AffirmationItems rows n) = list_all (\<lambda>r. a_userId r = uid) rows"
| "payload_owned_by uid NoData = True"

text \<open>The rows of both tables that are owned by anyone but the given user, in storage
  order.\<close>

definition rows_of_others :: "string \<Rightarrow> db \<Rightarrow> collection list \<times> affirmation list" where
  "rows_of_others uid s =
     (filter (\<lambda>r. c_userId r \<noteq> uid) (collections s),
      filter (\<lambda>r. a_userId r \<noteq> uid) (affirmations s))"

text \<open>A result is isolated for a user when the rows of others are as they were before the
  call and a success payload carries only rows of that user.\<close>

definition isolated :: "string \<Rightarrow> db \<Rightarrow> (error + payload) \<times> db \<Rightarrow> bool" where
  "isolated uid s res =
     (rows_of_others uid (snd res) = rows_of_others uid s
      \<and> (case fst res of Inl err \<Rightarrow> True | Inr p \<Rightarrow> payload_owned_by uid p))"

section \<open>Every schema rejection is the validation error\<close>

lemma z_string_error: "z_string v = Inl x \<Longrightarrow> x = VALIDATION_ERROR"
  by (cases v) simp_all

lemma z_boolean_error: "z_boolean v = Inl x \<Longrightarrow> x = VALIDATION_ERROR"
  by (cases v) simp_all

lemma z_string_min1_error: "z_string_min1 v = Inl x \<Longrightarrow> x = VALIDATION_ERROR"
  by (auto simp: z_string_min1_def bindE_def split: sum.splits if_splits dest: z_string_error)

lemma z_enum_error: "z_enum vs v = Inl x \<Longrightarrow> x = VALIDATION_ERROR"
  by (auto simp: z_enum_def bindE_def split: sum.splits if_splits dest: z_string_error)

lemma z_object_error: "z_object v = Inl x \<Longrightarrow> x = VALIDATION_ERROR"
  by (auto simp: z_object_def split: if_splits)

lemma z_optional_error:
  assumes "\<And>w y. p w = Inl y \<Longrightarrow> y = VALIDATION_ERROR" and "z_optional p v = Inl x"
  shows "x = VALIDATION_ERROR"
  using assms by (cases v) (auto simp: bindE_def split: sum.splits)

lemma z_nullable_error:
  assumes "\<And>w y. p w = Inl y \<Longrightarrow> y = VALIDATION_ERROR" and "z_nullable p v = Inl x"
  shows "x = VALIDATION_ERROR"
  using assms by (cases v) (auto simp: bindE_def split: sum.splits)

lemma z_optional_errors:
  "z_optional z_string v = Inl x \<Longrightarrow> x = VALIDATION_ERROR"
  "z_optional z_boolean v = Inl x \<Longrightarrow> x = VALIDATION_ERROR"
  "z_optional z_string_min1 v = Inl x \<Longrightarrow> x = VALIDATION_ERROR"
  "z_optional (z_enum vs) v = Inl x \<Longrightarrow> x = VALIDATION_ERROR"
  "z_optional (z_nullable z_string) v = Inl x \<Longrightarrow> x = VALIDATION_ERROR"
  by (erule z_optional_error[rotated],
      (erule z_string_error z_boolean_error z_string_min1_error z_enum_error
          z_nullable_error[rotated, where p = z_string])?, (erule z_string_error)?)+

lemmas z_errors = z_string_error z_boolean_error z_string_min1_error z_enum_error z_object_error
  z_optional_errors

lemma createCollectionSchema_error: "createCollectionSchema raw = Inl x \<Longrightarrow> x = VALIDATION_ERROR"
  by (auto simp: createCollectionSchema_def bindE_def split: sum.splits dest: z_errors)

lemma updateCollectionSchema_error: "updateCollectionSchema raw = Inl x \<Longrightarrow> x = VALIDATION_ERROR"
  by (auto simp: updateCollectionSchema_def bindE_def split: sum.splits if_splits dest: z_errors)

lemma idSchema_error: "idSchema raw = Inl x \<Longrightarrow> x = VALIDATION_ERROR"
  by (auto simp: idSchema_def bindE_def split: sum.splits dest: z_errors)

lemma listCollectionsSchema_error: "listCollectionsSchema raw = Inl x \<Longrightarrow> x = VALIDATION_ERROR"
  unfolding listCollectionsSchema_def
  by (erule z_optional_error[rotated]) (auto simp: bindE_def split: sum.splits dest: z_object_error)

lemma createAffirmationSchema_error: "createAffirmationSchema raw = Inl x \<Longrightarrow> x = VALIDATION_ERROR"
  by (auto simp: createAffirmationSchema_def bindE_def split: sum.splits dest: z_errors)

lemma updateAffirmationSchema_error: "updateAffirmationSchema raw = Inl x \<Longrightarrow> x = VALIDATION_ERROR"
  by (auto simp: updateAffirmationSchema_def bindE_def split: sum.splits if_splits dest: z_errors)

lemma listAffirmationsSchema_error: "listAffirmationsSchema raw = Inl x \<Longrightarrow> x = VALIDATION_ERROR"
  unfolding listAffirmationsSchema_def
  by (erule z_optional_error[rotated]) (auto simp: bindE_def split: sum.splits dest: z_errors)

section \<open>The authorization guard\<close>

lemma requireUser_None: "locals_user context = None \<Longrightarrow> requireUser context = Inl UNAUTHORIZED"
  by (simp add: requireUser_def)

lemma requireUser_Some: "locals_user context = Some usr \<Longrightarrow> requireUser context = Inr usr"
  by (simp add: requireUser_def)

lemma handlers_unauthorized:
  assumes "locals_user context = None"
  shows "createCollection_handler e i1 context s = (Inl UNAUTHORIZED, s)"
    and "updateCollection_handler e i2 context s = (Inl UNAUTHORIZED, s)"
    and "deleteCollection_handler e i3 context s = (Inl UNAUTHORIZED, s)"
    and "listCollections_handler e i4 context s = (Inl UNAUTHORIZED, s)"
    and "createAffirmation_handler e i5 context s = (Inl UNAUTHORIZED, s)"
    and "updateAffirmation_handler e i6 context s = (Inl UNAUTHORIZED, s)"
    and "deleteAffirmation_handler e i7 context s = (Inl UNAUTHORIZED, s)"
    and "listAffirmations_handler e i8 context s = (Inl UNAUTHORIZED, s)"
  using assms
  by (simp_all add: requireUser_None createCollection_handler_def updateCollection_handler_def
      deleteCollection_handler_def listCollections_handler_def createAffirmation_handler_def
      updateAffirmation_handler_def deleteAffirmation_handler_def listAffirmations_handler_def)

lemma defineAction_unauthorized:
  assumes "\<And>input. h input context s = (Inl UNAUTHORIZED, s)"
    and "\<And>x. schema raw = Inl x \<Longrightarrow> x = VALIDATION_ERROR"
  shows "defineAction schema h raw context s =
           (Inl (if \<not> isl (schema raw) then UNAUTHORIZED else VALIDATION_ERROR), s)"
  using assms by (cases "schema raw") (auto simp: defineAction_def)

text \<open>
  Claim C2, as amended. When the context carries no authenticated user, every one of the
  eight actions fails on every raw input and leaves the store exactly as it was: no row
  is changed and no store call is made. The error is \<open>UNAUTHORIZED\<close> when the raw input
  passes the action's schema; a raw input the schema rejects fails validation before
  the handler, and with it the authorization guard, runs.
\<close>

theorem unauthenticated_call_rejected:
  assumes "locals_user context = None"
  shows "server a e raw context s =
           (Inl (if valid_input a raw then UNAUTHORIZED else VALIDATION_ERROR), s)"
proof (cases a)
  case createCollection
  then show ?thesis
    using defineAction_unauthorized[where h = "createCollection_handler e" and schema = createCollectionSchema,
        OF handlers_unauthorized(1)[OF assms] createCollectionSchema_error]
    by simp
next
  case updateCollection
  then show ?thesis
    using defineAction_unauthorized[where h = "updateCollection_handler e" and schema = updateCollectionSchema,
        OF handlers_unauthorized(2)[OF assms] updateCollectionSchema_error]
    by simp
next
  case deleteCollection
  then show ?thesis
    using defineAction_unauthorized[where h = "deleteCollection_handler e" and schema = idSchema,
        OF handlers_unauthorized(3)[OF assms] idSchema_error]
    by simp
next
  case listCollections
  then show ?thesis
    using defineAction_unauthorized[where h = "listCollections_handler e" and schema = listCollectionsSchema,
        OF handlers_unauthorized(4)[OF assms] listCollectionsSchema_error]
    by simp
next
  case createAffirmation
  then show ?thesis
    using defineAction_unauthorized[where h = "createAffirmation_handler e" and schema = createAffirmationSchema,
        OF handlers_unauthorized(5)[OF assms] createAffirmationSchema_error]
    by simp
next
  case updateAffirmation
  then show ?thesis
    using defineAction_unauthorized[where h = "updateAffirmation_handler e" and schema = updateAffirmationSchema,
        OF handlers_unauthorized(6)[OF assms] updateAffirmationSchema_error]
    by simp
next
  case deleteAffirmation
  then show ?thesis
    using defineAction_unauthorized[where h = "deleteAffirmation_handler e" and schema = idSchema,
        OF handlers_unauthorized(7)[OF assms] idSchema_error]
    by simp
next
  case listAffirmations
  then show ?thesis
    using defineAction_unauthorized[where h = "listAffirmations_handler e" and schema = listAffirmationsSchema,
        OF handlers_unauthorized(8)[OF assms] listAffirmationsSchema_error]
    by simp
qed

lemma anonymous_user: "locals_user anonymous = None"
  by (simp add: anonymous_def locals_user_def)

theorem unauthenticated_call_rejected_witness:
  "locals_user anonymous = None
   \<and> server createCollection env1 (JObj [(''name'', JStr ''Morning'')]) anonymous empty_db
       = (Inl UNAUTHORIZED, empty_db)
   \<and> server updateCollection env1 (JObj [(''id'', JStr ''c-1'')]) anonymous empty_db
       = (Inl VALIDATION_ERROR, empty_db)"
proof -
  have v1: "valid_input createCollection (JObj [(''name'', JStr ''Morning'')])"
    by (simp add: createCollectionSchema_def bindE_def z_object_def z_string_min1_def)
  have v2: "\<not> valid_input updateCollection (JObj [(''id'', JStr ''c-1'')])"
    by (simp add: updateCollectionSchema_def bindE_def z_object_def)
  show ?thesis
    using unauthenticated_call_rejected[OF anonymous_user, of createCollection env1 _ empty_db]
      unauthenticated_call_rejected[OF anonymous_user, of updateCollection env1 _ empty_db]
      v1 v2 anonymous_user by simp
qed

text \<open>
  Claim C2 as stated fails: without an authenticated user, \<^verbatim>\<open>updateCollection\<close> on an
  input with only an id does not fail with \<open>UNAUTHORIZED\<close>.
\<close>

theorem unauthorized_for_every_input_counterexample:
  "locals_user anonymous = None
   \<and> fst (server updateCollection env1 (JObj [(''id'', JStr ''c-1'')]) anonymous empty_db)
       \<noteq> Inl UNAUTHORIZED"
  by (simp add: anonymous_def locals_user_def defineAction_def updateCollectionSchema_def
      bindE_def z_object_def)

section \<open>Sample data facts\<close>

lemma signed_in_user: "locals_user (signed_in uid) = Some \<lparr>u_id = uid\<rparr>"
  by (simp add: signed_in_def locals_user_def)

section \<open>Validation of the update inputs\<close>

text \<open>
  Claim C6. For every caller, authenticated or not, \<^verbatim>\<open>updateCollection\<close> and
  \<^verbatim>\<open>updateAffirmation\<close> on an input in which none of the optional fields is present fail
  with the validation error, and the store is left exactly as it was (no row changed, no
  store call made). The context is arbitrary: the failure does not depend on who calls.
\<close>

theorem update_with_no_field_fails_validation:
  "(field raw ''name'' = JUndefined \<and> field raw ''description'' = JUndefined
      \<and> field raw ''icon'' = JUndefined \<and> field raw ''isDefault'' = JUndefined
     \<longrightarrow> server updateCollection e raw context s = (Inl VALIDATION_ERROR, s))
   \<and> (field raw ''text'' = JUndefined \<and> field raw ''collectionId'' = JUndefined
      \<and> field raw ''category'' = JUndefined \<and> field raw ''language'' = JUndefined
      \<and> field raw ''tags'' = JUndefined \<and> field raw ''useTimeOfDay'' = JUndefined
      \<and> field raw ''isFavorite'' = JUndefined
     \<longrightarrow> server updateAffirmation e raw context s = (Inl VALIDATION_ERROR, s))"
proof (intro conjI impI)
  assume "field raw ''name'' = JUndefined \<and> field raw ''description'' = JUndefined
      \<and> field raw ''icon'' = JUndefined \<and> field raw ''isDefault'' = JUndefined"
  then have "updateCollectionSchema raw = Inl VALIDATION_ERROR"
    by (auto simp: updateCollectionSchema_def bindE_def z_object_def
        split: sum.splits dest: z_string_error)
  then show "server updateCollection e raw context s = (Inl VALIDATION_ERROR, s)"
    by (simp add: defineAction_def)
next
  assume "field raw ''text'' = JUndefined \<and> field raw ''collectionId'' = JUndefined
      \<and> field raw ''category'' = JUndefined \<and> field raw ''language'' = JUndefined
      \<and> field raw ''tags'' = JUndefined \<and> field raw ''useTimeOfDay'' = JUndefined
      \<and> field raw ''isFavorite'' = JUndefined"
  then have "updateAffirmationSchema raw = Inl VALIDATION_ERROR"
    by (auto simp: updateAffirmationSchema_def bindE_def z_object_def
        split: sum.splits dest: z_string_error)
  then show "server updateAffirmation e raw context s = (Inl VALIDATION_ERROR, s)"
    by (simp add: defineAction_def)
qed

theorem update_with_no_field_fails_validation_witness:
  "server updateCollection env1 (JObj [(''id'', JStr ''c-bob'')]) (signed_in ''bob'') db1
     = (Inl VALIDATION_ERROR, db1)
   \<and> server updateAffirmation env1 (JObj [(''id'', JStr ''a-bob-1'')]) anonymous db1
     = (Inl VALIDATION_ERROR, db1)"
  using update_with_no_field_fails_validation
          [of "JObj [(''id'', JStr ''c-bob'')]" env1 "signed_in ''bob''" db1]
        update_with_no_field_fails_validation
          [of "JObj [(''id'', JStr ''a-bob-1'')]" env1 anonymous db1]
  by simp

section \<open>Creating a collection\<close>

lemma createCollection_handler_auth:
  assumes "locals_user context = Some usr"
  shows "createCollection_handler e input context s =
     (Inr (CollectionData
        \<lparr>c_id = randomUUID e, c_userId = u_id usr, c_name = cc_name input,
         c_description = cc_description input, c_icon = cc_icon input,
         c_isDefault = (case cc_isDefault input of None \<Rightarrow> False | Some b \<Rightarrow> b),
         c_createdAt = now e, c_updatedAt = now e\<rparr>),
      s\<lparr>collections := collections s @
           [\<lparr>c_id = randomUUID e, c_userId = u_id usr, c_name = cc_name input,
             c_description = cc_description input, c_icon = cc_icon input,
             c_isDefault = (case cc_isDefault input of None \<Rightarrow> False | Some b \<Rightarrow> b),
             c_createdAt = now e, c_updatedAt = now e\<rparr>],
         calls := calls s @ [(Insert, AffirmationCollections)]\<rparr>)"
  by (simp add: createCollection_handler_def requireUser_Some[OF assms] insert_collection_def
      called_def Let_def)

lemma createCollectionSchema_accepts:
  assumes "is_object raw" and "field raw ''name'' = JStr n" and "1 \<le> length n"
    and "z_optional z_string (field raw ''description'') = Inr d"
    and "z_optional z_string (field raw ''icon'') = Inr i"
    and "z_optional z_boolean (field raw ''isDefault'') = Inr b"
  shows "createCollectionSchema raw =
           Inr \<lparr>cc_name = n, cc_description = d, cc_icon = i, cc_isDefault = b\<rparr>"
  using assms by (simp add: createCollectionSchema_def bindE_def z_object_def z_string_min1_def)

lemma createCollectionSchema_empty_name:
  assumes "field raw ''name'' = JStr []"
  shows "createCollectionSchema raw = Inl VALIDATION_ERROR"
  using assms
  by (simp add: createCollectionSchema_def bindE_def z_object_def z_string_min1_def
      split: sum.splits)

text \<open>
  Claim C8. \<^verbatim>\<open>createCollection\<close> with an empty name fails validation and leaves the
  store as it was. With a name of length at least 1 (and optional fields the schema
  accepts), called by an authenticated user, it succeeds: the returned record carries the
  identifier generated for this call, the caller as owner, \<^verbatim>\<open>isDefault\<close> false when
  omitted, and the same timestamp as \<^verbatim>\<open>createdAt\<close> and \<^verbatim>\<open>updatedAt\<close>; exactly that
  record is appended to the collections table.
\<close>

theorem createCollection_validates_and_creates:
  "(field raw ''name'' = JStr []
      \<longrightarrow> server createCollection e raw context s = (Inl VALIDATION_ERROR, s))
   \<and> (locals_user context = Some usr \<and> is_object raw
        \<and> field raw ''name'' = JStr n \<and> 1 \<le> length n
        \<and> z_optional z_string (field raw ''description'') = Inr d
        \<and> z_optional z_string (field raw ''icon'') = Inr i
        \<and> z_optional z_boolean (field raw ''isDefault'') = Inr b
      \<longrightarrow> server createCollection e raw context s =
            (Inr (CollectionData
               \<lparr>c_id = randomUUID e, c_userId = u_id usr, c_name = n,
                c_description = d, c_icon = i,
                c_isDefault = (case b of None \<Rightarrow> False | Some v \<Rightarrow> v),
                c_createdAt = now e, c_updatedAt = now e\<rparr>),
             s\<lparr>collections := collections s @
                  [\<lparr>c_id = randomUUID e, c_userId = u_id usr, c_name = n,
                    c_description = d, c_icon = i,
                    c_isDefault = (case b of None \<Rightarrow> False | Some v \<Rightarrow> v),
                    c_createdAt = now e, c_updatedAt = now e\<rparr>],
                calls := calls s @ [(Insert, AffirmationCollections)]\<rparr>))"
proof (intro conjI impI)
  assume "field raw ''name'' = JStr []"
  then show "server createCollection e raw context s = (Inl VALIDATION_ERROR, s)"
    by (simp add: defineAction_def createCollectionSchema_empty_name)
next
  assume h: "locals_user context = Some usr \<and> is_object raw
        \<and> field raw ''name'' = JStr n \<and> 1 \<le> length n
        \<and> z_optional z_string (field raw ''description'') = Inr d
        \<and> z_optional z_string (field raw ''icon'') = Inr i
        \<and> z_optional z_boolean (field raw ''isDefault'') = Inr b"
  then have p: "createCollectionSchema raw =
           Inr \<lparr>cc_name = n, cc_description = d, cc_icon = i, cc_isDefault = b\<rparr>"
    by (simp add: createCollectionSchema_accepts)
  from h have u: "locals_user context = Some usr" by simp
  show "server createCollection e raw context s =
            (Inr (CollectionData
               \<lparr>c_id = randomUUID e, c_userId = u_id usr, c_name = n,
                c_description = d, c_icon = i,
                c_isDefault = (case b of None \<Rightarrow> False | Some v \<Rightarrow> v),
                c_createdAt = now e, c_updatedAt = now e\<rparr>),
             s\<lparr>collections := collections s @
                  [\<lparr>c_id = randomUUID e, c_userId = u_id usr, c_name = n,
                    c_description = d, c_icon = i,
                    c_isDefault = (case b of None \<Rightarrow> False | Some v \<Rightarrow> v),
                    c_createdAt = now e, c_updatedAt = now e\<rparr>],
                calls := calls s @ [(Insert, AffirmationCollections)]\<rparr>)"
    by (simp add: defineAction_def p createCollection_handler_auth[OF u])
qed

theorem createCollection_validates_and_creates_witness:
  "server createCollection env1 (JObj [(''name'', JStr [])]) (signed_in ''bob'') db1
     = (Inl VALIDATION_ERROR, db1)
   \<and> server createCollection env1 (JObj [(''name'', JStr ''Morning'')]) (signed_in ''bob'') db1
     = (Inr (CollectionData
          \<lparr>c_id = ''id-1'', c_userId = ''bob'', c_name = ''Morning'',
           c_description = None, c_icon = None, c_isDefault = False,
           c_createdAt = 1000, c_updatedAt = 1000\<rparr>),
        db1\<lparr>collections := collections db1 @
             [\<lparr>c_id = ''id-1'', c_userId = ''bob'', c_name = ''Morning'',
               c_description = None, c_icon = None, c_isDefault = False,
               c_createdAt = 1000, c_updatedAt = 1000\<rparr>],
            calls := calls db1 @ [(Insert, AffirmationCollections)]\<rparr>)"
  using createCollection_validates_and_creates
          [of "JObj [(''name'', JStr [])]" env1 "signed_in ''bob''" db1]
        createCollection_validates_and_creates
          [of "JObj [(''name'', JStr ''Morning'')]" env1 "signed_in ''bob''" db1
              "\<lparr>u_id = ''bob''\<rparr>" "''Morning''" None None None]
  by (simp add: signed_in_user env1_def)

section \<open>The handlers under an authenticated caller\<close>

lemma collection_exists_iff: "collection_exists c s \<longleftrightarrow> c \<in> c_id ` set (collections s)"
  by (auto simp: collection_exists_def list_ex_iff)

lemma collection_exists_frame [simp]:
  "collection_exists c (s\<lparr>calls := cs\<rparr>) = collection_exists c s"
  "collection_exists c (s\<lparr>affirmations := as\<rparr>) = collection_exists c s"
  by (simp_all add: collection_exists_def)

lemma updateCollection_handler_auth:
  assumes "locals_user context = Some usr"
  shows "updateCollection_handler e input context s =
     (case filter (\<lambda>r. c_id r = uc_id input \<and> c_userId r = u_id usr) (collections s) of
        [] \<Rightarrow> (Inl NOT_FOUND, s\<lparr>calls := calls s @ [(Select, AffirmationCollections)]\<rparr>)
      | existing # rest \<Rightarrow>
          (Inr (CollectionData (spread_collection existing (collection_updates_of e input))),
           s\<lparr>collections :=
                map (\<lambda>r. if c_id r = uc_id input \<and> c_userId r = u_id usr
                          then spread_collection r (collection_updates_of e input) else r)
                    (collections s),
              calls := calls s @ [(Select, AffirmationCollections), (Update, AffirmationCollections)]\<rparr>))"
  by (simp add: updateCollection_handler_def requireUser_Some[OF assms] select_collections_def
      update_collections_def called_def Let_def split: list.splits)

lemma refs_after_delete:
  assumes "\<exists>r \<in> set cs. key r = k \<and> Q r"
  shows "list_ex (\<lambda>r. (key r = k \<and> Q r)
              \<and> list_ex (\<lambda>a. ref a = Some (key r))
                   (filter (\<lambda>a. \<not> (ref a = Some k \<and> own a = u)) as)) cs
        = list_ex (\<lambda>a. ref a = Some k \<and> own a \<noteq> u) as"
proof -
  from assms obtain r0 where r0: "r0 \<in> set cs" "key r0 = k" "Q r0" by blast
  show ?thesis
  proof
    assume "list_ex (\<lambda>r. (key r = k \<and> Q r)
              \<and> list_ex (\<lambda>a. ref a = Some (key r))
                   (filter (\<lambda>a. \<not> (ref a = Some k \<and> own a = u)) as)) cs"
    then obtain r where "key r = k"
      and l: "list_ex (\<lambda>a. ref a = Some (key r)) (filter (\<lambda>a. \<not> (ref a = Some k \<and> own a = u)) as)"
      unfolding list_ex_iff by blast
    from l obtain a where "a \<in> set as" "\<not> (ref a = Some k \<and> own a = u)" "ref a = Some (key r)"
      unfolding list_ex_iff by auto
    with \<open>key r = k\<close> have "a \<in> set as \<and> ref a = Some k \<and> own a \<noteq> u" by simp
    then show "list_ex (\<lambda>a. ref a = Some k \<and> own a \<noteq> u) as"
      unfolding list_ex_iff by blast
  next
    assume "list_ex (\<lambda>a. ref a = Some k \<and> own a \<noteq> u) as"
    then obtain a where "a \<in> set as" "ref a = Some k" "own a \<noteq> u"
      unfolding list_ex_iff by blast
    with r0 have "a \<in> set (filter (\<lambda>a. \<not> (ref a = Some k \<and> own a = u)) as) \<and> ref a = Some (key r0)"
      by simp
    then have "list_ex (\<lambda>a. ref a = Some (key r0)) (filter (\<lambda>a. \<not> (ref a = Some k \<and> own a = u)) as)"
      unfolding list_ex_iff by blast
    with r0 show "list_ex (\<lambda>r. (key r = k \<and> Q r)
              \<and> list_ex (\<lambda>a. ref a = Some (key r))
                   (filter (\<lambda>a. \<not> (ref a = Some k \<and> own a = u)) as)) cs"
      unfolding list_ex_iff by blast
  qed
qed

text \<open>After the caller's affirmations of the collection are deleted, an affirmation still
  points at the collection exactly when one of another user does.\<close>

lemma deleteCollection_handler_auth:
  assumes "locals_user context = Some usr"
  shows "deleteCollection_handler e input context s =
     (case filter (\<lambda>r. c_id r = in_id input \<and> c_userId r = u_id usr) (collections s) of
        [] \<Rightarrow> (Inl NOT_FOUND, s\<lparr>calls := calls s @ [(Select, AffirmationCollections)]\<rparr>)
      | existing # rest \<Rightarrow>
          (if list_ex (\<lambda>a. a_collectionId a = Some (in_id input) \<and> a_userId a \<noteq> u_id usr)
                (affirmations s)
           then
             (Inl INTERNAL_SERVER_ERROR,
              s\<lparr>affirmations :=
                   filter (\<lambda>r. \<not> (a_collectionId r = Some (in_id input) \<and> a_userId r = u_id usr))
                          (affirmations s),
                 calls := calls s @ [(Select, AffirmationCollections), (Delete, Affirmations),
                                     (Delete, AffirmationCollections)]\<rparr>)
           else
             (Inr NoData,
              s\<lparr>collections :=
                   filter (\<lambda>r. \<not> (c_id r = in_id input \<and> c_userId r = u_id usr)) (collections s),
                 affirmations :=
                   filter (\<lambda>r. \<not> (a_collectionId r = Some (in_id input) \<and> a_userId r = u_id usr))
                          (affirmations s),
                 calls := calls s @ [(Select, AffirmationCollections), (Delete, Affirmations),
                                     (Delete, AffirmationCollections)]\<rparr>)))"
proof (cases "filter (\<lambda>r. c_id r = in_id input \<and> c_userId r = u_id usr) (collections s)")
  case Nil
  then show ?thesis
    by (simp add: deleteCollection_handler_def requireUser_Some[OF assms] select_collections_def
        called_def)
next
  case (Cons existing rest)
  then have "existing \<in> set (filter (\<lambda>r. c_id r = in_id input \<and> c_userId r = u_id usr) (collections s))"
    by simp
  then have ex: "\<exists>r \<in> set (collections s). c_id r = in_id input \<and> c_userId r = u_id usr"
    by auto
  have "list_ex (\<lambda>r. (c_id r = in_id input \<and> c_userId r = u_id usr)
              \<and> list_ex (\<lambda>a. a_collectionId a = Some (c_id r))
                   (filter (\<lambda>r. \<not> (a_collectionId r = Some (in_id input) \<and> a_userId r = u_id usr))
                          (affirmations s)))
           (collections s)
        = list_ex (\<lambda>a. a_collectionId a = Some (in_id input) \<and> a_userId a \<noteq> u_id usr)
                (affirmations s)"
    using ex by (rule refs_after_delete)
  with Cons show ?thesis
    by (simp add: deleteCollection_handler_def requireUser_Some[OF assms] select_collections_def
        delete_collections_def delete_affirmations_def called_def Let_def)
qed

lemma listCollections_handler_auth:
  assumes "locals_user context = Some usr"
  shows "listCollections_handler e input context s =
     (Inr (CollectionItems (filter (\<lambda>r. c_userId r = u_id usr) (collections s))
             (length (filter (\<lambda>r. c_userId r = u_id usr) (collections s)))),
      s\<lparr>calls := calls s @ [(Select, AffirmationCollections)]\<rparr>)"
  by (simp add: listCollections_handler_def requireUser_Some[OF assms] select_collections_def
      called_def)

lemma createAffirmation_handler_auth:
  assumes "locals_user context = Some usr"
  shows "createAffirmation_handler e input context s =
     (if truthy_string (ca_collectionId input) then
        (case filter (\<lambda>r. Some (c_id r) = ca_collectionId input \<and> c_userId r = u_id usr)
                (collections s) of
           [] \<Rightarrow> (Inl NOT_FOUND, s\<lparr>calls := calls s @ [(Select, AffirmationCollections)]\<rparr>)
         | collection # rest \<Rightarrow>
             (Inr (AffirmationData (created_affirmation e usr input)),
              s\<lparr>affirmations := affirmations s @ [created_affirmation e usr input],
                 calls := calls s @ [(Select, AffirmationCollections), (Insert, Affirmations)]\<rparr>))
      else if (case ca_collectionId input of None \<Rightarrow> True | Some c \<Rightarrow> collection_exists c s) then
        (Inr (AffirmationData (created_affirmation e usr input)),
         s\<lparr>affirmations := affirmations s @ [created_affirmation e usr input],
            calls := calls s @ [(Insert, Affirmations)]\<rparr>)
      else (Inl INTERNAL_SERVER_ERROR, s\<lparr>calls := calls s @ [(Insert, Affirmations)]\<rparr>))"
proof (cases "truthy_string (ca_collectionId input)")
  case False
  then show ?thesis
    by (simp add: createAffirmation_handler_def requireUser_Some[OF assms]
        insert_affirmation_def called_def Let_def collection_exists_def split: option.splits)
next
  case True
  then obtain c where c: "ca_collectionId input = Some c" by (cases "ca_collectionId input") auto
  show ?thesis
  proof (cases "filter (\<lambda>r. Some (c_id r) = ca_collectionId input \<and> c_userId r = u_id usr)
                (collections s)")
    case Nil
    with True show ?thesis
      by (simp add: createAffirmation_handler_def requireUser_Some[OF assms] select_collections_def
        called_def)
  next
    case (Cons y ys)
    then have "y \<in> set (filter (\<lambda>r. Some (c_id r) = ca_collectionId input \<and> c_userId r = u_id usr)
                (collections s))" by simp
    with c have "collection_exists c s"
      by (auto simp: collection_exists_iff)
    with True Cons c show ?thesis
      by (simp add: createAffirmation_handler_def requireUser_Some[OF assms] select_collections_def
        insert_affirmation_def called_def Let_def)
  qed
qed

lemma updateAffirmation_handler_auth:
  assumes "locals_user context = Some usr"
  shows "updateAffirmation_handler e input context s =
     (case filter (\<lambda>r. a_id r = ua_id input \<and> a_userId r = u_id usr) (affirmations s) of
        [] \<Rightarrow> (Inl NOT_FOUND, s\<lparr>calls := calls s @ [(Select, Affirmations)]\<rparr>)
      | existing # rest \<Rightarrow>
          (if truthy_nullable_string (ua_collectionId input) then
             (case filter (\<lambda>r. Some (Val (c_id r)) = ua_collectionId input \<and> c_userId r = u_id usr)
                     (collections s) of
                [] \<Rightarrow> (Inl NOT_FOUND,
                       s\<lparr>calls := calls s @ [(Select, Affirmations), (Select, AffirmationCollections)]\<rparr>)
              | collection # crest \<Rightarrow>
                  (Inr (AffirmationData (spread_affirmation existing (affirmation_updates_of e input))),
                   s\<lparr>affirmations :=
                        map (\<lambda>r. if a_id r = ua_id input \<and> a_userId r = u_id usr
                                  then spread_affirmation r (affirmation_updates_of e input) else r)
                            (affirmations s),
                      calls := calls s @ [(Select, Affirmations), (Select, AffirmationCollections),
                                          (Update, Affirmations)]\<rparr>))
           else if (case ua_collectionId input of
                      Some (Val c) \<Rightarrow> collection_exists c s | _ \<Rightarrow> True) then
             (Inr (AffirmationData (spread_affirmation existing (affirmation_updates_of e input))),
              s\<lparr>affirmations :=
                   map (\<lambda>r. if a_id r = ua_id input \<and> a_userId r = u_id usr
                             then spread_affirmation r (affirmation_updates_of e input) else r)
                       (affirmations s),
                 calls := calls s @ [(Select, Affirmations), (Update, Affirmations)]\<rparr>)
           else (Inl INTERNAL_SERVER_ERROR,
                 s\<lparr>calls := calls s @ [(Select, Affirmations), (Update, Affirmations)]\<rparr>)))"
proof (cases "filter (\<lambda>r. a_id r = ua_id input \<and> a_userId r = u_id usr) (affirmations s)")
  case Nil
  then show ?thesis
    by (simp add: updateAffirmation_handler_def requireUser_Some[OF assms] select_affirmations_def
        called_def)
next
  case (Cons existing rest)
  then have "existing \<in> set (filter (\<lambda>r. a_id r = ua_id input \<and> a_userId r = u_id usr) (affirmations s))"
    by simp
  then have m: "list_ex (\<lambda>r. a_id r = ua_id input \<and> a_userId r = u_id usr) (affirmations s)"
    unfolding list_ex_iff by auto
  show ?thesis
  proof (cases "truthy_nullable_string (ua_collectionId input)")
    case False
    with Cons m show ?thesis
      by (simp add: updateAffirmation_handler_def requireUser_Some[OF assms]
          select_affirmations_def update_affirmations_def called_def Let_def
          split: option.splits nullable.splits)
  next
    case True
    then obtain c where c: "ua_collectionId input = Some (Val c)"
      by (cases "ua_collectionId input" rule: truthy_nullable_string.cases) auto
    show ?thesis
    proof (cases "filter (\<lambda>r. Some (Val (c_id r)) = ua_collectionId input \<and> c_userId r = u_id usr)
                     (collections s)")
      case Nil
      with True Cons show ?thesis
        by (simp add: updateAffirmation_handler_def requireUser_Some[OF assms]
            select_affirmations_def select_collections_def called_def)
    next
      case (Cons y ys)
      then have "y \<in> set (filter (\<lambda>r. Some (Val (c_id r)) = ua_collectionId input \<and> c_userId r = u_id usr)
                     (collections s))" by simp
      with c have "collection_exists c s"
        by (auto simp: collection_exists_iff)
      with True Cons \<open>filter (\<lambda>r. a_id r = ua_id input \<and> a_userId r = u_id usr) (affirmations s)
          = existing # rest\<close> m c show ?thesis
        by (simp add: updateAffirmation_handler_def requireUser_Some[OF assms]
            select_affirmations_def select_collections_def update_affirmations_def called_def
            Let_def)
    qed
  qed
qed

lemma deleteAffirmation_handler_auth:
  assumes "locals_user context = Some usr"
  shows "deleteAffirmation_handler e input context s =
     (case filter (\<lambda>r. a_id r = in_id input \<and> a_userId r = u_id usr) (affirmations s) of
        [] \<Rightarrow> (Inl NOT_FOUND, s\<lparr>calls := calls s @ [(Select, Affirmations)]\<rparr>)
      | existing # rest \<Rightarrow>
          (Inr NoData,
           s\<lparr>affirmations :=
                filter (\<lambda>r. \<not> (a_id r = in_id input \<and> a_userId r = u_id usr)) (affirmations s),
              calls := calls s @ [(Select, Affirmations), (Delete, Affirmations)]\<rparr>))"
  by (simp add: deleteAffirmation_handler_def requireUser_Some[OF assms] select_affirmations_def
      delete_affirmations_def called_def split: list.splits)

lemma listAffirmations_filters_eq:
  "and_filters (listAffirmations_filters input usr) r =
     (a_userId r = u_id usr
      \<and> (case input of None \<Rightarrow> True
          | Some i \<Rightarrow>
              (if truthy_string (la_collectionId i) then a_collectionId r = la_collectionId i else True)
              \<and> (if truthy_bool (la_favoritesOnly i) then a_isFavorite r else True)))"
  by (cases input) (auto simp: and_filters_def listAffirmations_filters_def Let_def)

lemma listAffirmations_handler_auth:
  assumes "locals_user context = Some usr"
  shows "listAffirmations_handler e input context s =
     (Inr (AffirmationItems
             (filter (and_filters (listAffirmations_filters input usr)) (affirmations s))
             (length (filter (and_filters (listAffirmations_filters input usr)) (affirmations s)))),
      s\<lparr>calls := calls s @ [(Select, Affirmations)]\<rparr>)"
  by (simp add: listAffirmations_handler_def requireUser_Some[OF assms] select_affirmations_def
      called_def)

section \<open>Creating an affirmation\<close>

lemma createAffirmationSchema_Inr:
  assumes "createAffirmationSchema raw = Inr input"
  shows "z_string_min1 (field raw ''text'') = Inr (ca_text input)"
    and "z_optional z_string (field raw ''collectionId'') = Inr (ca_collectionId input)"
    and "z_optional z_string (field raw ''category'') = Inr (ca_category input)"
    and "z_optional z_string (field raw ''language'') = Inr (ca_language input)"
    and "z_optional z_string (field raw ''tags'') = Inr (ca_tags input)"
    and "z_optional (z_enum time_of_day) (field raw ''useTimeOfDay'') = Inr (ca_useTimeOfDay input)"
    and "z_optional z_boolean (field raw ''isFavorite'') = Inr (ca_isFavorite input)"
  using assms
  by (auto simp: createAffirmationSchema_def bindE_def z_object_def split: sum.splits if_splits)

lemma updateAffirmationSchema_Inr:
  assumes "updateAffirmationSchema raw = Inr input"
  shows "z_string (field raw ''id'') = Inr (ua_id input)"
    and "z_optional z_string_min1 (field raw ''text'') = Inr (ua_text input)"
    and "z_optional (z_nullable z_string) (field raw ''collectionId'') = Inr (ua_collectionId input)"
    and "z_optional z_string (field raw ''category'') = Inr (ua_category input)"
    and "z_optional z_string (field raw ''language'') = Inr (ua_language input)"
    and "z_optional z_string (field raw ''tags'') = Inr (ua_tags input)"
    and "z_optional (z_enum time_of_day) (field raw ''useTimeOfDay'') = Inr (ua_useTimeOfDay input)"
    and "z_optional z_boolean (field raw ''isFavorite'') = Inr (ua_isFavorite input)"
  using assms
  by (auto simp: updateAffirmationSchema_def bindE_def z_object_def split: sum.splits if_splits)

text \<open>
  Claim C4, as amended. For an authenticated caller and an input the schema accepts:
  \<^verbatim>\<open>createAffirmation\<close> with a non-empty \<^verbatim>\<open>collectionId\<close> that no collection owned by the
  caller has fails with \<open>NOT_FOUND\<close> after the one lookup and inserts nothing; with an
  empty \<^verbatim>\<open>collectionId\<close> that is the id of no collection it makes no lookup, sends the
  insert, and fails with the store's error, again inserting nothing; with
  \<^verbatim>\<open>collectionId\<close> omitted it succeeds without any lookup, and the row it returns and
  appends has \<^verbatim>\<open>collectionId\<close> null, \<^verbatim>\<open>isSystem\<close> false, the caller as owner, the
  identifier generated for this call, and \<^verbatim>\<open>createdAt\<close> equal to \<^verbatim>\<open>updatedAt\<close>.
\<close>

theorem createAffirmation_collection_check:
  "(locals_user context = Some usr \<and> createAffirmationSchema raw = Inr input
      \<and> field raw ''collectionId'' = JStr cid \<and> cid \<noteq> []
      \<and> (\<forall>r \<in> set (collections s). \<not> (c_id r = cid \<and> c_userId r = u_id usr))
     \<longrightarrow> server createAffirmation e raw context s =
           (Inl NOT_FOUND, s\<lparr>calls := calls s @ [(Select, AffirmationCollections)]\<rparr>))
   \<and> (locals_user context = Some usr \<and> createAffirmationSchema raw = Inr input
      \<and> field raw ''collectionId'' = JUndefined
     \<longrightarrow> server createAffirmation e raw context s =
           (Inr (AffirmationData
              \<lparr>a_id = randomUUID e, a_collectionId = None, a_userId = u_id usr,
               a_text = ca_text input, a_category = ca_category input,
               a_language = ca_language input, a_tags = ca_tags input,
               a_useTimeOfDay = ca_useTimeOfDay input,
               a_isFavorite = (case ca_isFavorite input of None \<Rightarrow> False | Some b \<Rightarrow> b),
               a_isSystem = False, a_createdAt = now e, a_updatedAt = now e\<rparr>),
            s\<lparr>affirmations := affirmations s @
                 [\<lparr>a_id = randomUUID e, a_collectionId = None, a_userId = u_id usr,
                   a_text = ca_text input, a_category = ca_category input,
                   a_language = ca_language input, a_tags = ca_tags input,
                   a_useTimeOfDay = ca_useTimeOfDay input,
                   a_isFavorite = (case ca_isFavorite input of None \<Rightarrow> False | Some b \<Rightarrow> b),
                   a_isSystem = False, a_createdAt = now e, a_updatedAt = now e\<rparr>],
               calls := calls s @ [(Insert, Affirmations)]\<rparr>))
   \<and> (locals_user context = Some usr \<and> createAffirmationSchema raw = Inr input
      \<and> field raw ''collectionId'' = JStr [] \<and> \<not> collection_exists [] s
     \<longrightarrow> server createAffirmation e raw context s =
           (Inl INTERNAL_SERVER_ERROR, s\<lparr>calls := calls s @ [(Insert, Affirmations)]\<rparr>))"
proof (intro conjI impI)
  assume h: "locals_user context = Some usr \<and> createAffirmationSchema raw = Inr input
      \<and> field raw ''collectionId'' = JStr cid \<and> cid \<noteq> []
      \<and> (\<forall>r \<in> set (collections s). \<not> (c_id r = cid \<and> c_userId r = u_id usr))"
  then have u: "locals_user context = Some usr"
    and p: "createAffirmationSchema raw = Inr input" by simp_all
  from h createAffirmationSchema_Inr(2)[OF p] have c: "ca_collectionId input = Some cid"
    by (auto simp: bindE_def)
  from h have "filter (\<lambda>r. c_id r = cid \<and> c_userId r = u_id usr) (collections s) = []"
    by (simp add: filter_empty_conv)
  with h c show "server createAffirmation e raw context s =
           (Inl NOT_FOUND, s\<lparr>calls := calls s @ [(Select, AffirmationCollections)]\<rparr>)"
    by (simp add: defineAction_def p createAffirmation_handler_auth[OF u])
next
  assume h: "locals_user context = Some usr \<and> createAffirmationSchema raw = Inr input
      \<and> field raw ''collectionId'' = JUndefined"
  then have u: "locals_user context = Some usr"
    and p: "createAffirmationSchema raw = Inr input" by simp_all
  from h createAffirmationSchema_Inr(2)[OF p] have c: "ca_collectionId input = None"
    by (auto simp: bindE_def)
  show "server createAffirmation e raw context s =
           (Inr (AffirmationData
              \<lparr>a_id = randomUUID e, a_collectionId = None, a_userId = u_id usr,
               a_text = ca_text input, a_category = ca_category input,
               a_language = ca_language input, a_tags = ca_tags input,
               a_useTimeOfDay = ca_useTimeOfDay input,
               a_isFavorite = (case ca_isFavorite input of None \<Rightarrow> False | Some b \<Rightarrow> b),
               a_isSystem = False, a_createdAt = now e, a_updatedAt = now e\<rparr>),
            s\<lparr>affirmations := affirmations s @
                 [\<lparr>a_id = randomUUID e, a_collectionId = None, a_userId = u_id usr,
                   a_text = ca_text input, a_category = ca_category input,
                   a_language = ca_language input, a_tags = ca_tags input,
                   a_useTimeOfDay = ca_useTimeOfDay input,
                   a_isFavorite = (case ca_isFavorite input of None \<Rightarrow> False | Some b \<Rightarrow> b),
                   a_isSystem = False, a_createdAt = now e, a_updatedAt = now e\<rparr>],
               calls := calls s @ [(Insert, Affirmations)]\<rparr>)"
    by (simp add: defineAction_def p c createAffirmation_handler_auth[OF u])
next
  assume h: "locals_user context = Some usr \<and> createAffirmationSchema raw = Inr input
      \<and> field raw ''collectionId'' = JStr [] \<and> \<not> collection_exists [] s"
  then have u: "locals_user context = Some usr"
    and p: "createAffirmationSchema raw = Inr input" by simp_all
  from h createAffirmationSchema_Inr(2)[OF p] have c: "ca_collectionId input = Some []"
    by (auto simp: bindE_def)
  with h show "server createAffirmation e raw context s =
           (Inl INTERNAL_SERVER_ERROR, s\<lparr>calls := calls s @ [(Insert, Affirmations)]\<rparr>)"
    by (simp add: defineAction_def p createAffirmation_handler_auth[OF u])
qed

lemma sample_create_inputs:
  "createAffirmationSchema (JObj [(''text'', JStr ''I am calm''), (''collectionId'', JStr ''c-alice'')])
     = Inr \<lparr>ca_text = ''I am calm'', ca_collectionId = Some ''c-alice'', ca_category = None,
            ca_language = None, ca_tags = None, ca_useTimeOfDay = None, ca_isFavorite = None\<rparr>"
  "createAffirmationSchema (JObj [(''text'', JStr ''I am calm'')])
     = Inr \<lparr>ca_text = ''I am calm'', ca_collectionId = None, ca_category = None,
            ca_language = None, ca_tags = None, ca_useTimeOfDay = None, ca_isFavorite = None\<rparr>"
  "createAffirmationSchema (JObj [(''text'', JStr ''I am calm''), (''collectionId'', JStr [])])
     = Inr \<lparr>ca_text = ''I am calm'', ca_collectionId = Some [], ca_category = None,
            ca_language = None, ca_tags = None, ca_useTimeOfDay = None, ca_isFavorite = None\<rparr>"
  by (simp_all add: createAffirmationSchema_def bindE_def z_object_def z_string_min1_def)

lemma db1_tables:
  "affirmations db1 = [aff_alice, aff_bob1, aff_bob2, aff_alice_in_bob]"
  "collections db1 = [col_alice, col_bob]"
  "calls db1 = []"
  by (simp_all add: db1_def)

lemma sample_rows:
  "a_userId aff_alice = ''alice''" "a_userId aff_bob1 = ''bob''" "a_userId aff_bob2 = ''bob''"
  "a_userId aff_alice_in_bob = ''alice''"
  "a_collectionId aff_alice = Some ''c-alice''" "a_collectionId aff_bob1 = Some ''c-bob''"
  "a_collectionId aff_bob2 = None" "a_collectionId aff_alice_in_bob = Some ''c-bob''"
  "a_isFavorite aff_alice = True" "a_isFavorite aff_bob1 = False" "a_isFavorite aff_bob2 = True"
  "a_isFavorite aff_alice_in_bob = False"
  "a_id aff_alice = ''a-alice''" "a_id aff_bob1 = ''a-bob-1''" "a_id aff_bob2 = ''a-bob-2''"
  "a_id aff_alice_in_bob = ''a-alice-2''"
  "c_id col_alice = ''c-alice''" "c_id col_bob = ''c-bob''"
  "c_userId col_alice = ''alice''" "c_userId col_bob = ''bob''"
  by (simp_all add: aff_alice_def aff_bob1_def aff_bob2_def aff_alice_in_bob_def
      col_alice_def col_bob_def)

lemma db1_no_empty_id: "\<not> collection_exists [] db1"
  by (simp add: collection_exists_def db1_tables sample_rows)

theorem createAffirmation_collection_check_witness:
  "server createAffirmation env1
       (JObj [(''text'', JStr ''I am calm''), (''collectionId'', JStr ''c-alice'')])
       (signed_in ''bob'') db1
     = (Inl NOT_FOUND, db1\<lparr>calls := [(Select, AffirmationCollections)]\<rparr>)
   \<and> server createAffirmation env1 (JObj [(''text'', JStr ''I am calm'')]) (signed_in ''bob'') db1
     = (Inr (AffirmationData
          \<lparr>a_id = ''id-1'', a_collectionId = None, a_userId = ''bob'',
           a_text = ''I am calm'', a_category = None, a_language = None, a_tags = None,
           a_useTimeOfDay = None, a_isFavorite = False, a_isSystem = False,
           a_createdAt = 1000, a_updatedAt = 1000\<rparr>),
        db1\<lparr>affirmations := affirmations db1 @
             [\<lparr>a_id = ''id-1'', a_collectionId = None, a_userId = ''bob'',
               a_text = ''I am calm'', a_category = None, a_language = None, a_tags = None,
               a_useTimeOfDay = None, a_isFavorite = False, a_isSystem = False,
               a_createdAt = 1000, a_updatedAt = 1000\<rparr>],
            calls := [(Insert, Affirmations)]\<rparr>)
   \<and> server createAffirmation env1
       (JObj [(''text'', JStr ''I am calm''), (''collectionId'', JStr [])])
       (signed_in ''bob'') db1
     = (Inl INTERNAL_SERVER_ERROR, db1\<lparr>calls := [(Insert, Affirmations)]\<rparr>)"
proof -
  have nf: "\<forall>r \<in> set (collections db1). \<not> (c_id r = ''c-alice'' \<and> c_userId r = u_id \<lparr>u_id = ''bob''\<rparr>)"
    by (simp add: db1_tables sample_rows)
  have c: "calls db1 = []" by (simp add: db1_def)
  show ?thesis
    using createAffirmation_collection_check
          [of "signed_in ''bob''" "\<lparr>u_id = ''bob''\<rparr>"
              "JObj [(''text'', JStr ''I am calm''), (''collectionId'', JStr ''c-alice'')]"
              _ "''c-alice''" db1 env1]
        createAffirmation_collection_check
          [of "signed_in ''bob''" "\<lparr>u_id = ''bob''\<rparr>"
              "JObj [(''text'', JStr ''I am calm'')]" _ _ db1 env1]
        createAffirmation_collection_check
          [of "signed_in ''bob''" "\<lparr>u_id = ''bob''\<rparr>"
              "JObj [(''text'', JStr ''I am calm''), (''collectionId'', JStr [])]" _ _ db1 env1]
        nf c db1_no_empty_id
    by (simp add: signed_in_user sample_create_inputs env1_def del: server.simps)
qed

text \<open>
  Claim C4 as stated fails for a supplied but empty \<^verbatim>\<open>collectionId\<close>: no collection
  exists at all, the ownership lookup is skipped, and the call fails with the store's
  error on the insert, not with \<open>NOT_FOUND\<close>.
\<close>

theorem createAffirmation_empty_collectionId_counterexample:
  "collections empty_db = []
   \<and> server createAffirmation env1
       (JObj [(''text'', JStr ''I am calm''), (''collectionId'', JStr [])])
       (signed_in ''bob'') empty_db
     = (Inl INTERNAL_SERVER_ERROR,
        \<lparr>collections = [], affirmations = [], calls = [(Insert, Affirmations)]\<rparr>)"
  by (simp add: defineAction_def sample_create_inputs createAffirmation_handler_auth[OF signed_in_user]
      empty_db_def env1_def collection_exists_def)

section \<open>Listing affirmations\<close>

text \<open>
  Claim C9, as amended. For an authenticated caller and an input the schema accepts,
  \<^verbatim>\<open>listAffirmations\<close> makes one select and returns, in storage order, exactly the rows
  whose owner is the caller, that additionally have the given collection id when a
  non-empty \<^verbatim>\<open>collectionId\<close> is given, and that additionally are favorites when
  \<^verbatim>\<open>favoritesOnly\<close> is given as true; \<^verbatim>\<open>total\<close> is the number of returned items. So
  with \<^verbatim>\<open>favoritesOnly = true\<close> every returned row is a favorite, whatever the other
  filter.
\<close>

theorem listAffirmations_result:
  assumes "locals_user context = Some usr" and "listAffirmationsSchema raw = Inr input"
  shows "server listAffirmations e raw context s =
     (Inr (AffirmationItems
        (filter (\<lambda>r. a_userId r = u_id usr
                  \<and> (case input of None \<Rightarrow> True
                      | Some i \<Rightarrow>
                          (truthy_string (la_collectionId i)
                             \<longrightarrow> a_collectionId r = la_collectionId i)
                          \<and> (la_favoritesOnly i = Some True \<longrightarrow> a_isFavorite r)))
           (affirmations s))
        (length
           (filter (\<lambda>r. a_userId r = u_id usr
                  \<and> (case input of None \<Rightarrow> True
                      | Some i \<Rightarrow>
                          (truthy_string (la_collectionId i)
                             \<longrightarrow> a_collectionId r = la_collectionId i)
                          \<and> (la_favoritesOnly i = Some True \<longrightarrow> a_isFavorite r)))
           (affirmations s)))),
      s\<lparr>calls := calls s @ [(Select, Affirmations)]\<rparr>)"
proof -
  have "and_filters (listAffirmations_filters input usr) =
          (\<lambda>r. a_userId r = u_id usr
                  \<and> (case input of None \<Rightarrow> True
                      | Some i \<Rightarrow>
                          (truthy_string (la_collectionId i)
                             \<longrightarrow> a_collectionId r = la_collectionId i)
                          \<and> (la_favoritesOnly i = Some True \<longrightarrow> a_isFavorite r)))"
  proof
    fix r
    have "truthy_bool b = (b = Some True)" for b
      by (cases b) auto
    then show "and_filters (listAffirmations_filters input usr) r =
          (a_userId r = u_id usr
                  \<and> (case input of None \<Rightarrow> True
                      | Some i \<Rightarrow>
                          (truthy_string (la_collectionId i)
                             \<longrightarrow> a_collectionId r = la_collectionId i)
                          \<and> (la_favoritesOnly i = Some True \<longrightarrow> a_isFavorite r)))"
      by (auto simp: listAffirmations_filters_eq split: option.splits)
  qed
  then show ?thesis
    by (simp add: defineAction_def assms(2) listAffirmations_handler_auth[OF assms(1)])
qed

lemma sample_list_inputs:
  "listAffirmationsSchema (JObj [(''favoritesOnly'', JBool True)])
     = Inr (Some \<lparr>la_collectionId = None, la_favoritesOnly = Some True\<rparr>)"
  "listAffirmationsSchema (JObj [(''collectionId'', JStr ''c-bob'')])
     = Inr (Some \<lparr>la_collectionId = Some ''c-bob'', la_favoritesOnly = None\<rparr>)"
  "listAffirmationsSchema (JObj [(''favoritesOnly'', JBool False)])
     = Inr (Some \<lparr>la_collectionId = None, la_favoritesOnly = Some False\<rparr>)"
  "listAffirmationsSchema (JObj [(''collectionId'', JStr [])])
     = Inr (Some \<lparr>la_collectionId = Some [], la_favoritesOnly = None\<rparr>)"
  "listAffirmationsSchema JUndefined = Inr None"
  by (simp_all add: listAffirmationsSchema_def bindE_def z_object_def)

theorem listAffirmations_result_witness:
  "server listAffirmations env1 (JObj [(''favoritesOnly'', JBool True)]) (signed_in ''bob'') db1
     = (Inr (AffirmationItems [aff_bob2] 1), db1\<lparr>calls := [(Select, Affirmations)]\<rparr>)
   \<and> server listAffirmations env1 (JObj [(''collectionId'', JStr ''c-bob'')]) (signed_in ''bob'') db1
     = (Inr (AffirmationItems [aff_bob1] 1), db1\<lparr>calls := [(Select, Affirmations)]\<rparr>)
   \<and> server listAffirmations env1 JUndefined (signed_in ''bob'') db1
     = (Inr (AffirmationItems [aff_bob1, aff_bob2] 2), db1\<lparr>calls := [(Select, Affirmations)]\<rparr>)"
  using listAffirmations_result[OF signed_in_user[of "''bob''"] sample_list_inputs(1), of env1 db1]
    listAffirmations_result[OF signed_in_user[of "''bob''"] sample_list_inputs(2), of env1 db1]
    listAffirmations_result[OF signed_in_user[of "''bob''"] sample_list_inputs(5), of env1 db1]
  by (simp add: db1_tables sample_rows)

text \<open>
  Claim C9 as stated fails when a filter field is given but falsy: with
  \<^verbatim>\<open>favoritesOnly = false\<close> a row that is not a favorite is returned, and with
  \<^verbatim>\<open>collectionId = ""\<close> a row of another collection id is returned.
\<close>

theorem listAffirmations_falsy_filter_counterexample:
  "server listAffirmations env1 (JObj [(''favoritesOnly'', JBool False)]) (signed_in ''bob'') db1
     = (Inr (AffirmationItems [aff_bob1, aff_bob2] 2), db1\<lparr>calls := [(Select, Affirmations)]\<rparr>)
   \<and> a_isFavorite aff_bob1 = False
   \<and> server listAffirmations env1 (JObj [(''collectionId'', JStr [])]) (signed_in ''bob'') db1
     = (Inr (AffirmationItems [aff_bob1, aff_bob2] 2), db1\<lparr>calls := [(Select, Affirmations)]\<rparr>)
   \<and> a_collectionId aff_bob1 = Some ''c-bob''"
  by (simp add: defineAction_def sample_list_inputs listAffirmations_handler_auth[OF signed_in_user]
      listAffirmations_filters_eq db1_tables sample_rows)

section \<open>Updating an affirmation\<close>

lemma spread_affirmation_key:
  "a_id (spread_affirmation r u) = a_id r" "a_userId (spread_affirmation r u) = a_userId r"
  by (simp_all add: spread_affirmation_def)

lemma spread_collection_key:
  "c_id (spread_collection r u) = c_id r" "c_userId (spread_collection r u) = c_userId r"
  by (simp_all add: spread_collection_def)

lemma filter_updated_affirmations:
  "filter (\<lambda>r. a_id r = i \<and> a_userId r = uid)
     (map (\<lambda>r. if a_id r = i \<and> a_userId r = uid then spread_affirmation r u else r) xs)
   = map (\<lambda>r. spread_affirmation r u) (filter (\<lambda>r. a_id r = i \<and> a_userId r = uid) xs)"
  by (induction xs) (simp_all add: spread_affirmation_key)

lemma filter_untouched_affirmations:
  "filter (\<lambda>r. \<not> (a_id r = i \<and> a_userId r = uid))
     (map (\<lambda>r. if a_id r = i \<and> a_userId r = uid then spread_affirmation r u else r) xs)
   = filter (\<lambda>r. \<not> (a_id r = i \<and> a_userId r = uid)) xs"
  by (induction xs) (simp_all add: spread_affirmation_key)

lemma updateAffirmation_server_auth:
  assumes "locals_user context = Some usr" and "updateAffirmationSchema raw = Inr input"
    and "filter (\<lambda>r. a_id r = ua_id input \<and> a_userId r = u_id usr) (affirmations s)
           = existing # rest"
  shows "server updateAffirmation e raw context s =
     (if truthy_nullable_string (ua_collectionId input)
         \<and> (\<forall>c \<in> set (collections s).
               \<not> (Some (Val (c_id c)) = ua_collectionId input \<and> c_userId c = u_id usr))
      then (Inl NOT_FOUND,
            s\<lparr>calls := calls s @ [(Select, Affirmations), (Select, AffirmationCollections)]\<rparr>)
      else if (case ua_collectionId input of
                 Some (Val c) \<Rightarrow> \<not> collection_exists c s | _ \<Rightarrow> False)
      then (Inl INTERNAL_SERVER_ERROR,
            s\<lparr>calls := calls s @
                 (if truthy_nullable_string (ua_collectionId input)
                  then [(Select, Affirmations), (Select, AffirmationCollections), (Update, Affirmations)]
                  else [(Select, Affirmations), (Update, Affirmations)])\<rparr>)
      else (Inr (AffirmationData (spread_affirmation existing (affirmation_updates_of e input))),
            s\<lparr>affirmations :=
                 map (\<lambda>r. if a_id r = ua_id input \<and> a_userId r = u_id usr
                           then spread_affirmation r (affirmation_updates_of e input) else r)
                     (affirmations s),
               calls := calls s @
                 (if truthy_nullable_string (ua_collectionId input)
                  then [(Select, Affirmations), (Select, AffirmationCollections), (Update, Affirmations)]
                  else [(Select, Affirmations), (Update, Affirmations)])\<rparr>))"
proof (cases "truthy_nullable_string (ua_collectionId input)")
  case False
  then show ?thesis
    by (simp add: defineAction_def assms(2,3) updateAffirmation_handler_auth[OF assms(1)]
        split: option.splits nullable.splits)
next
  case True
  then obtain c where c: "ua_collectionId input = Some (Val c)"
    by (cases "ua_collectionId input" rule: truthy_nullable_string.cases) auto
  show ?thesis
  proof (cases "filter (\<lambda>r. Some (Val (c_id r)) = ua_collectionId input \<and> c_userId r = u_id usr)
                (collections s)")
    case Nil
    then have "\<forall>c \<in> set (collections s).
               \<not> (Some (Val (c_id c)) = ua_collectionId input \<and> c_userId c = u_id usr)"
      by (simp add: filter_empty_conv)
    with Nil True show ?thesis
      by (simp add: defineAction_def assms(2,3) updateAffirmation_handler_auth[OF assms(1)])
  next
    case (Cons y ys)
    then have y: "y \<in> set (filter (\<lambda>r. Some (Val (c_id r)) = ua_collectionId input \<and> c_userId r = u_id usr)
                (collections s))" by simp
    then have "\<not> (\<forall>c \<in> set (collections s).
               \<not> (Some (Val (c_id c)) = ua_collectionId input \<and> c_userId c = u_id usr))"
      by auto
    moreover from y c have "collection_exists c s"
      by (auto simp: collection_exists_iff)
    ultimately show ?thesis
      using Cons True c
      by (simp add: defineAction_def assms(2,3) updateAffirmation_handler_auth[OF assms(1)])
  qed
qed

text \<open>
  Claim C5, as amended. Let an authenticated caller own an affirmation with the given id,
  let the input pass the schema, and let its \<^verbatim>\<open>collectionId\<close> be omitted, null, or the
  id of a collection owned by the caller. Then \<^verbatim>\<open>updateAffirmation\<close> succeeds; the
  returned record is the one a later lookup by id and owner finds in the store; rows with
  another id or owner are as before; every supplied field is replaced and every field not
  supplied keeps its prior value; id, owner, \<^verbatim>\<open>isSystem\<close> and \<^verbatim>\<open>createdAt\<close> are
  unchanged; and \<^verbatim>\<open>updatedAt\<close> is the clock reading of the call. That reading is
  whatever the clock returns: nothing in the handler makes it larger than the prior
  \<^verbatim>\<open>updatedAt\<close>.
\<close>

theorem updateAffirmation_frame:
  fixes e :: env and input :: updateAffirmation_input and existing :: affirmation
    and s :: db and usr :: App_User
  assumes "locals_user context = Some usr" and "updateAffirmationSchema raw = Inr input"
    and "filter (\<lambda>r. a_id r = ua_id input \<and> a_userId r = u_id usr) (affirmations s)
           = existing # rest"
    and "\<forall>c. ua_collectionId input = Some (Val c) \<longrightarrow>
           (\<exists>col \<in> set (collections s). c_id col = c \<and> c_userId col = u_id usr)"
  defines "updated \<equiv> spread_affirmation existing (affirmation_updates_of e input)"
    and "stored \<equiv> map (\<lambda>r. if a_id r = ua_id input \<and> a_userId r = u_id usr
                             then spread_affirmation r (affirmation_updates_of e input) else r)
                       (affirmations s)"
  shows "fst (server updateAffirmation e raw context s) = Inr (AffirmationData updated)
    \<and> affirmations (snd (server updateAffirmation e raw context s)) = stored
    \<and> collections (snd (server updateAffirmation e raw context s)) = collections s
    \<and> first_or_not_found
         (filter (\<lambda>r. a_id r = ua_id input \<and> a_userId r = u_id usr) stored) = Inr updated
    \<and> filter (\<lambda>r. \<not> (a_id r = ua_id input \<and> a_userId r = u_id usr)) stored
        = filter (\<lambda>r. \<not> (a_id r = ua_id input \<and> a_userId r = u_id usr)) (affirmations s)
    \<and> a_text updated = (case ua_text input of None \<Rightarrow> a_text existing | Some v \<Rightarrow> v)
    \<and> a_collectionId updated =
        (case ua_collectionId input of None \<Rightarrow> a_collectionId existing
         | Some Null \<Rightarrow> None | Some (Val v) \<Rightarrow> Some v)
    \<and> a_category updated =
        (case ua_category input of None \<Rightarrow> a_category existing | Some v \<Rightarrow> Some v)
    \<and> a_language updated =
        (case ua_language input of None \<Rightarrow> a_language existing | Some v \<Rightarrow> Some v)
    \<and> a_tags updated = (case ua_tags input of None \<Rightarrow> a_tags existing | Some v \<Rightarrow> Some v)
    \<and> a_useTimeOfDay updated =
        (case ua_useTimeOfDay input of None \<Rightarrow> a_useTimeOfDay existing | Some v \<Rightarrow> Some v)
    \<and> a_isFavorite updated =
        (case ua_isFavorite input of None \<Rightarrow> a_isFavorite existing | Some v \<Rightarrow> v)
    \<and> a_id updated = a_id existing
    \<and> a_userId updated = a_userId existing
    \<and> a_isSystem updated = a_isSystem existing
    \<and> a_createdAt updated = a_createdAt existing
    \<and> a_updatedAt updated = now e"
proof -
  have r: "server updateAffirmation e raw context s =
     (Inr (AffirmationData updated),
      s\<lparr>affirmations := stored,
         calls := calls s @
                 (if truthy_nullable_string (ua_collectionId input)
                  then [(Select, Affirmations), (Select, AffirmationCollections), (Update, Affirmations)]
                  else [(Select, Affirmations), (Update, Affirmations)])\<rparr>)"
  proof -
    have a: "\<not> (truthy_nullable_string (ua_collectionId input)
         \<and> (\<forall>c \<in> set (collections s).
               \<not> (Some (Val (c_id c)) = ua_collectionId input \<and> c_userId c = u_id usr)))"
      using assms(4)
      by (cases "ua_collectionId input" rule: truthy_nullable_string.cases) auto
    have b: "\<not> (case ua_collectionId input of
                 Some (Val c) \<Rightarrow> \<not> collection_exists c s | _ \<Rightarrow> False)"
      using assms(4)
      by (auto simp: collection_exists_iff split: option.splits nullable.splits)
    show ?thesis
      unfolding updated_def stored_def
      using a b updateAffirmation_server_auth[OF assms(1-3), of e]
      by (simp del: server.simps)
  qed
  have p: "first_or_not_found
         (filter (\<lambda>r. a_id r = ua_id input \<and> a_userId r = u_id usr) stored) = Inr updated"
    unfolding stored_def updated_def by (simp add: filter_updated_affirmations assms(3))
  have o: "filter (\<lambda>r. \<not> (a_id r = ua_id input \<and> a_userId r = u_id usr)) stored
        = filter (\<lambda>r. \<not> (a_id r = ua_id input \<and> a_userId r = u_id usr)) (affirmations s)"
    unfolding stored_def by (rule filter_untouched_affirmations)
  have f: "a_text updated = (case ua_text input of None \<Rightarrow> a_text existing | Some v \<Rightarrow> v)"
    "a_collectionId updated =
        (case ua_collectionId input of None \<Rightarrow> a_collectionId existing
         | Some Null \<Rightarrow> None | Some (Val v) \<Rightarrow> Some v)"
    "a_category updated =
        (case ua_category input of None \<Rightarrow> a_category existing | Some v \<Rightarrow> Some v)"
    "a_language updated =
        (case ua_language input of None \<Rightarrow> a_language existing | Some v \<Rightarrow> Some v)"
    "a_tags updated = (case ua_tags input of None \<Rightarrow> a_tags existing | Some v \<Rightarrow> Some v)"
    "a_useTimeOfDay updated =
        (case ua_useTimeOfDay input of None \<Rightarrow> a_useTimeOfDay existing | Some v \<Rightarrow> Some v)"
    "a_isFavorite updated =
        (case ua_isFavorite input of None \<Rightarrow> a_isFavorite existing | Some v \<Rightarrow> v)"
    "a_id updated = a_id existing" "a_userId updated = a_userId existing"
    "a_isSystem updated = a_isSystem existing" "a_createdAt updated = a_createdAt existing"
    "a_updatedAt updated = now e"
    unfolding updated_def
    by (simp_all add: spread_affirmation_def overlay_def overlay_opt_def overlay_nullable_def)
  from r have "fst (server updateAffirmation e raw context s) = Inr (AffirmationData updated)"
    and "affirmations (snd (server updateAffirmation e raw context s)) = stored"
    and "collections (snd (server updateAffirmation e raw context s)) = collections s"
    by simp_all
  with p o f show ?thesis by simp
qed


lemma sample_update_inputs:
  "updateAffirmationSchema (JObj [(''id'', JStr ''a-bob-1''), (''text'', JStr ''I rise at six'')])
     = Inr \<lparr>ua_id = ''a-bob-1'', ua_text = Some ''I rise at six'', ua_collectionId = None,
            ua_category = None, ua_language = None, ua_tags = None, ua_useTimeOfDay = None,
            ua_isFavorite = None\<rparr>"
  "updateAffirmationSchema (JObj [(''id'', JStr ''a-bob-1''), (''collectionId'', JNull)])
     = Inr \<lparr>ua_id = ''a-bob-1'', ua_text = None, ua_collectionId = Some Null,
            ua_category = None, ua_language = None, ua_tags = None, ua_useTimeOfDay = None,
            ua_isFavorite = None\<rparr>"
  "updateAffirmationSchema (JObj [(''id'', JStr ''a-bob-1''), (''collectionId'', JStr ''c-alice'')])
     = Inr \<lparr>ua_id = ''a-bob-1'', ua_text = None, ua_collectionId = Some (Val ''c-alice''),
            ua_category = None, ua_language = None, ua_tags = None, ua_useTimeOfDay = None,
            ua_isFavorite = None\<rparr>"
  "updateAffirmationSchema (JObj [(''id'', JStr ''a-bob-1''), (''collectionId'', JStr [])])
     = Inr \<lparr>ua_id = ''a-bob-1'', ua_text = None, ua_collectionId = Some (Val []),
            ua_category = None, ua_language = None, ua_tags = None, ua_useTimeOfDay = None,
            ua_isFavorite = None\<rparr>"
  by (simp_all add: updateAffirmationSchema_def bindE_def z_object_def z_string_min1_def)

lemma db1_bob1_found:
  "filter (\<lambda>r. a_id r = ''a-bob-1'' \<and> a_userId r = ''bob'') (affirmations db1) = aff_bob1 # []"
  by (simp add: db1_tables sample_rows)

theorem updateAffirmation_frame_witness:
  "fst (server updateAffirmation env1
          (JObj [(''id'', JStr ''a-bob-1''), (''text'', JStr ''I rise at six'')])
          (signed_in ''bob'') db1)
     = Inr (AffirmationData
         \<lparr>a_id = ''a-bob-1'', a_collectionId = Some ''c-bob'', a_userId = ''bob'',
          a_text = ''I rise at six'', a_category = Some ''health'',
          a_language = Some ''en'', a_tags = Some ''sun,day'',
          a_useTimeOfDay = Some ''morning'',
          a_isFavorite = False, a_isSystem = False,
          a_createdAt = 21, a_updatedAt = 1000\<rparr>)
   \<and> affirmations (snd (server updateAffirmation env1
          (JObj [(''id'', JStr ''a-bob-1''), (''text'', JStr ''I rise at six'')])
          (signed_in ''bob'') db1))
     = [aff_alice,
        \<lparr>a_id = ''a-bob-1'', a_collectionId = Some ''c-bob'', a_userId = ''bob'',
          a_text = ''I rise at six'', a_category = Some ''health'',
          a_language = Some ''en'', a_tags = Some ''sun,day'',
          a_useTimeOfDay = Some ''morning'',
          a_isFavorite = False, a_isSystem = False,
          a_createdAt = 21, a_updatedAt = 1000\<rparr>,
        aff_bob2, aff_alice_in_bob]"
proof -
  have t: "\<forall>c. ua_collectionId
             \<lparr>ua_id = ''a-bob-1'', ua_text = Some ''I rise at six'', ua_collectionId = None,
              ua_category = None, ua_language = None, ua_tags = None, ua_useTimeOfDay = None,
              ua_isFavorite = None\<rparr> = Some (Val c) \<longrightarrow>
           (\<exists>col \<in> set (collections db1). c_id col = c \<and> c_userId col = u_id \<lparr>u_id = ''bob''\<rparr>)"
    by simp
  have f: "filter (\<lambda>r. a_id r = ua_id
             \<lparr>ua_id = ''a-bob-1'', ua_text = Some ''I rise at six'', ua_collectionId = None,
              ua_category = None, ua_language = None, ua_tags = None, ua_useTimeOfDay = None,
              ua_isFavorite = None\<rparr> \<and> a_userId r = u_id \<lparr>u_id = ''bob''\<rparr>) (affirmations db1)
           = aff_bob1 # []"
    using db1_bob1_found by simp
  have "spread_affirmation aff_bob1
          \<lparr>au_text = Some ''I rise at six'', au_collectionId = None, au_category = None,
           au_language = None, au_tags = None, au_useTimeOfDay = None, au_isFavorite = None,
           au_updatedAt = 1000\<rparr>
        = \<lparr>a_id = ''a-bob-1'', a_collectionId = Some ''c-bob'', a_userId = ''bob'',
          a_text = ''I rise at six'', a_category = Some ''health'',
          a_language = Some ''en'', a_tags = Some ''sun,day'',
          a_useTimeOfDay = Some ''morning'',
          a_isFavorite = False, a_isSystem = False,
          a_createdAt = 21, a_updatedAt = 1000\<rparr>"
    by (simp add: spread_affirmation_def overlay_def overlay_opt_def overlay_nullable_def
        aff_bob1_def)
  then show ?thesis
    using updateAffirmation_frame[OF signed_in_user sample_update_inputs(1) f t, of env1]
    by (simp add: db1_tables sample_rows env1_def)
qed

text \<open>
  Claim C5 as stated fails twice. An update made in the millisecond of the previous write
  leaves \<^verbatim>\<open>updatedAt\<close> equal to its prior value, not strictly larger. And an input that
  passes the schema but names a collection of another user returns no record at all: the
  call fails with \<open>NOT_FOUND\<close> and writes nothing.
\<close>

theorem updateAffirmation_same_millisecond_counterexample:
  "a_updatedAt aff_bob1 = 21
   \<and> server updateAffirmation env_same_ms
          (JObj [(''id'', JStr ''a-bob-1''), (''text'', JStr ''I rise at six'')])
          (signed_in ''bob'') db1
     = (Inr (AffirmationData
         \<lparr>a_id = ''a-bob-1'', a_collectionId = Some ''c-bob'', a_userId = ''bob'',
          a_text = ''I rise at six'', a_category = Some ''health'',
          a_language = Some ''en'', a_tags = Some ''sun,day'',
          a_useTimeOfDay = Some ''morning'',
          a_isFavorite = False, a_isSystem = False,
          a_createdAt = 21, a_updatedAt = 21\<rparr>),
        db1\<lparr>affirmations :=
             [aff_alice,
              \<lparr>a_id = ''a-bob-1'', a_collectionId = Some ''c-bob'', a_userId = ''bob'',
               a_text = ''I rise at six'', a_category = Some ''health'',
               a_language = Some ''en'', a_tags = Some ''sun,day'',
               a_useTimeOfDay = Some ''morning'',
               a_isFavorite = False, a_isSystem = False,
               a_createdAt = 21, a_updatedAt = 21\<rparr>,
              aff_bob2, aff_alice_in_bob],
            calls := [(Select, Affirmations), (Update, Affirmations)]\<rparr>)
   \<and> server updateAffirmation env1
          (JObj [(''id'', JStr ''a-bob-1''), (''collectionId'', JStr ''c-alice'')])
          (signed_in ''bob'') db1
     = (Inl NOT_FOUND,
        db1\<lparr>calls := [(Select, Affirmations), (Select, AffirmationCollections)]\<rparr>)"
proof -
  have "spread_affirmation aff_bob1
          \<lparr>au_text = Some ''I rise at six'', au_collectionId = None, au_category = None,
           au_language = None, au_tags = None, au_useTimeOfDay = None, au_isFavorite = None,
           au_updatedAt = 21\<rparr>
        = \<lparr>a_id = ''a-bob-1'', a_collectionId = Some ''c-bob'', a_userId = ''bob'',
          a_text = ''I rise at six'', a_category = Some ''health'',
          a_language = Some ''en'', a_tags = Some ''sun,day'',
          a_useTimeOfDay = Some ''morning'',
          a_isFavorite = False, a_isSystem = False,
          a_createdAt = 21, a_updatedAt = 21\<rparr>"
    by (simp add: spread_affirmation_def overlay_def overlay_opt_def overlay_nullable_def
        aff_bob1_def)
  then show ?thesis
    by (simp add: defineAction_def sample_update_inputs
        updateAffirmation_handler_auth[OF signed_in_user] db1_tables sample_rows
        env_same_ms_def)
      (simp add: aff_bob1_def)
qed

text \<open>
  Claim C7. For an authenticated caller who owns an affirmation with the given id and an
  input the schema accepts, \<^verbatim>\<open>updateAffirmation\<close> looks the collection up exactly when
  the supplied \<^verbatim>\<open>collectionId\<close> is truthy: the store calls of the whole handler are
  listed for each case. With \<^verbatim>\<open>collectionId\<close> explicitly null there is no collection
  lookup, the call succeeds, and every row it writes (and the record it returns) has
  \<^verbatim>\<open>collectionId\<close> null. With a non-empty \<^verbatim>\<open>collectionId\<close> that no collection of the
  caller has, the call fails with \<open>NOT_FOUND\<close> after the lookup and writes nothing.
\<close>

theorem updateAffirmation_collection_recheck:
  assumes "locals_user context = Some usr" and "updateAffirmationSchema raw = Inr input"
    and "filter (\<lambda>r. a_id r = ua_id input \<and> a_userId r = u_id usr) (affirmations s)
           = existing # rest"
  shows "calls (snd (server updateAffirmation e raw context s)) =
           calls s @
             (if truthy_nullable_string (ua_collectionId input)
              then (if \<exists>c \<in> set (collections s).
                          Some (Val (c_id c)) = ua_collectionId input \<and> c_userId c = u_id usr
                    then [(Select, Affirmations), (Select, AffirmationCollections),
                          (Update, Affirmations)]
                    else [(Select, Affirmations), (Select, AffirmationCollections)])
              else [(Select, Affirmations), (Update, Affirmations)])
    \<and> (field raw ''collectionId'' = JNull \<longrightarrow>
          server updateAffirmation e raw context s =
            (Inr (AffirmationData (spread_affirmation existing (affirmation_updates_of e input))),
             s\<lparr>affirmations :=
                  map (\<lambda>r. if a_id r = ua_id input \<and> a_userId r = u_id usr
                            then spread_affirmation r (affirmation_updates_of e input) else r)
                      (affirmations s),
                calls := calls s @ [(Select, Affirmations), (Update, Affirmations)]\<rparr>)
          \<and> (\<forall>r. a_collectionId (spread_affirmation r (affirmation_updates_of e input)) = None))
    \<and> (field raw ''collectionId'' = JStr cid \<and> cid \<noteq> []
          \<and> (\<forall>c \<in> set (collections s). \<not> (c_id c = cid \<and> c_userId c = u_id usr)) \<longrightarrow>
          server updateAffirmation e raw context s =
            (Inl NOT_FOUND,
             s\<lparr>calls := calls s @ [(Select, Affirmations), (Select, AffirmationCollections)]\<rparr>))"
proof (intro conjI impI)
  show "calls (snd (server updateAffirmation e raw context s)) =
           calls s @
             (if truthy_nullable_string (ua_collectionId input)
              then (if \<exists>c \<in> set (collections s).
                          Some (Val (c_id c)) = ua_collectionId input \<and> c_userId c = u_id usr
                    then [(Select, Affirmations), (Select, AffirmationCollections),
                          (Update, Affirmations)]
                    else [(Select, Affirmations), (Select, AffirmationCollections)])
              else [(Select, Affirmations), (Update, Affirmations)])"
    using updateAffirmation_server_auth[OF assms, of e]
    by (auto simp del: server.simps)
next
  assume n: "field raw ''collectionId'' = JNull"
  with updateAffirmationSchema_Inr(3)[OF assms(2)] have c: "ua_collectionId input = Some Null"
    by (auto simp: bindE_def)
  then show "server updateAffirmation e raw context s =
            (Inr (AffirmationData (spread_affirmation existing (affirmation_updates_of e input))),
             s\<lparr>affirmations :=
                  map (\<lambda>r. if a_id r = ua_id input \<and> a_userId r = u_id usr
                            then spread_affirmation r (affirmation_updates_of e input) else r)
                      (affirmations s),
                calls := calls s @ [(Select, Affirmations), (Update, Affirmations)]\<rparr>)"
    using updateAffirmation_server_auth[OF assms, of e]
    by (simp del: server.simps)
  from c show "\<forall>r. a_collectionId (spread_affirmation r (affirmation_updates_of e input)) = None"
    by (simp add: spread_affirmation_def overlay_nullable_def)
next
  assume h: "field raw ''collectionId'' = JStr cid \<and> cid \<noteq> []
          \<and> (\<forall>c \<in> set (collections s). \<not> (c_id c = cid \<and> c_userId c = u_id usr))"
  with updateAffirmationSchema_Inr(3)[OF assms(2)] have c: "ua_collectionId input = Some (Val cid)"
    by (auto simp: bindE_def)
  with h show "server updateAffirmation e raw context s =
            (Inl NOT_FOUND,
             s\<lparr>calls := calls s @ [(Select, Affirmations), (Select, AffirmationCollections)]\<rparr>)"
    using updateAffirmation_server_auth[OF assms, of e]
    by (simp del: server.simps)
qed

theorem updateAffirmation_collection_recheck_witness:
  "server updateAffirmation env1
       (JObj [(''id'', JStr ''a-bob-1''), (''collectionId'', JNull)]) (signed_in ''bob'') db1
     = (Inr (AffirmationData
         \<lparr>a_id = ''a-bob-1'', a_collectionId = None, a_userId = ''bob'',
          a_text = ''I rise early'', a_category = Some ''health'',
          a_language = Some ''en'', a_tags = Some ''sun,day'',
          a_useTimeOfDay = Some ''morning'',
          a_isFavorite = False, a_isSystem = False,
          a_createdAt = 21, a_updatedAt = 1000\<rparr>),
        db1\<lparr>affirmations :=
             [aff_alice,
              \<lparr>a_id = ''a-bob-1'', a_collectionId = None, a_userId = ''bob'',
               a_text = ''I rise early'', a_category = Some ''health'',
               a_language = Some ''en'', a_tags = Some ''sun,day'',
               a_useTimeOfDay = Some ''morning'',
               a_isFavorite = False, a_isSystem = False,
               a_createdAt = 21, a_updatedAt = 1000\<rparr>,
              aff_bob2, aff_alice_in_bob],
            calls := [(Select, Affirmations), (Update, Affirmations)]\<rparr>)
   \<and> server updateAffirmation env1
       (JObj [(''id'', JStr ''a-bob-1''), (''collectionId'', JStr ''c-alice'')]) (signed_in ''bob'') db1
     = (Inl NOT_FOUND,
        db1\<lparr>calls := [(Select, Affirmations), (Select, AffirmationCollections)]\<rparr>)"
proof -
  have f: "filter (\<lambda>r. a_id r = ua_id
             \<lparr>ua_id = ''a-bob-1'', ua_text = None, ua_collectionId = c,
              ua_category = None, ua_language = None, ua_tags = None, ua_useTimeOfDay = None,
              ua_isFavorite = None\<rparr> \<and> a_userId r = u_id \<lparr>u_id = ''bob''\<rparr>) (affirmations db1)
           = aff_bob1 # []" for c
    using db1_bob1_found by simp
  have sp: "spread_affirmation aff_bob1
          \<lparr>au_text = None, au_collectionId = Some Null, au_category = None,
           au_language = None, au_tags = None, au_useTimeOfDay = None, au_isFavorite = None,
           au_updatedAt = 1000\<rparr>
        = \<lparr>a_id = ''a-bob-1'', a_collectionId = None, a_userId = ''bob'',
          a_text = ''I rise early'', a_category = Some ''health'',
          a_language = Some ''en'', a_tags = Some ''sun,day'',
          a_useTimeOfDay = Some ''morning'',
          a_isFavorite = False, a_isSystem = False,
          a_createdAt = 21, a_updatedAt = 1000\<rparr>"
    by (simp add: spread_affirmation_def overlay_def overlay_opt_def overlay_nullable_def
        aff_bob1_def)
  have nf: "\<forall>c \<in> set (collections db1). \<not> (c_id c = ''c-alice'' \<and> c_userId c = u_id \<lparr>u_id = ''bob''\<rparr>)"
    by (simp add: db1_tables sample_rows)
  show ?thesis
    using updateAffirmation_collection_recheck
            [OF signed_in_user sample_update_inputs(2) f, of env1 "''c-alice''"]
          updateAffirmation_collection_recheck
            [OF signed_in_user sample_update_inputs(3) f, of env1 "''c-alice''"]
          nf sp
    by (simp add: db1_tables sample_rows env1_def del: server.simps)
qed

section \<open>Falsy values behind the truthiness guards\<close>

lemma listAffirmations_filters_falsy:
  "listAffirmations_filters (Some \<lparr>la_collectionId = Some [], la_favoritesOnly = f\<rparr>) usr
     = listAffirmations_filters (Some \<lparr>la_collectionId = None, la_favoritesOnly = f\<rparr>) usr"
  "listAffirmations_filters (Some \<lparr>la_collectionId = c, la_favoritesOnly = Some False\<rparr>) usr
     = listAffirmations_filters (Some \<lparr>la_collectionId = c, la_favoritesOnly = None\<rparr>) usr"
  by (simp_all add: listAffirmations_filters_def Let_def)

lemma listAffirmations_handler_falsy:
  "listAffirmations_handler e (Some \<lparr>la_collectionId = Some [], la_favoritesOnly = f\<rparr>) context s
     = listAffirmations_handler e (Some \<lparr>la_collectionId = None, la_favoritesOnly = f\<rparr>) context s"
  "listAffirmations_handler e (Some \<lparr>la_collectionId = c, la_favoritesOnly = Some False\<rparr>) context s
     = listAffirmations_handler e (Some \<lparr>la_collectionId = c, la_favoritesOnly = None\<rparr>) context s"
  unfolding listAffirmations_handler_def listAffirmations_filters_falsy by (rule refl)+

text \<open>
  Claim C10, as amended. A \<^verbatim>\<open>collectionId\<close> or \<^verbatim>\<open>favoritesOnly\<close> that is present but
  falsy passes the truthiness guards as if absent. For an authenticated caller:
  \<^verbatim>\<open>createAffirmation\<close> with \<^verbatim>\<open>collectionId = ""\<close> makes no collection lookup (its only
  store call is the insert) and the row it sends has \<^verbatim>\<open>collectionId\<close> equal to the empty
  string, not null; \<^verbatim>\<open>updateAffirmation\<close> with \<^verbatim>\<open>collectionId = ""\<close> on an affirmation
  of the caller makes no collection lookup either and sends the empty string. The store
  accepts either write only when some collection has the empty string as its id;
  otherwise the call fails with the store's error and no row is written. For any caller,
  \<^verbatim>\<open>listAffirmations\<close> with \<^verbatim>\<open>collectionId = ""\<close>, or with
  \<^verbatim>\<open>favoritesOnly = false\<close>, returns exactly what it returns when that field is omitted.
\<close>

theorem falsy_values_treated_as_absent:
  "(locals_user context = Some usr \<and> createAffirmationSchema raw = Inr cinput
      \<and> field raw ''collectionId'' = JStr []
     \<longrightarrow> server createAffirmation e raw context s =
           (if collection_exists [] s
            then (Inr (AffirmationData (created_affirmation e usr cinput)),
                  s\<lparr>affirmations := affirmations s @ [created_affirmation e usr cinput],
                     calls := calls s @ [(Insert, Affirmations)]\<rparr>)
            else (Inl INTERNAL_SERVER_ERROR,
                  s\<lparr>calls := calls s @ [(Insert, Affirmations)]\<rparr>))
         \<and> a_collectionId (created_affirmation e usr cinput) = Some [])
   \<and> (locals_user context = Some usr \<and> updateAffirmationSchema raw = Inr uinput
      \<and> field raw ''collectionId'' = JStr []
      \<and> filter (\<lambda>r. a_id r = ua_id uinput \<and> a_userId r = u_id usr) (affirmations s)
           = existing # rest
     \<longrightarrow> server updateAffirmation e raw context s =
           (if collection_exists [] s
            then (Inr (AffirmationData
                         (spread_affirmation existing (affirmation_updates_of e uinput))),
                  s\<lparr>affirmations :=
                       map (\<lambda>r. if a_id r = ua_id uinput \<and> a_userId r = u_id usr
                                 then spread_affirmation r (affirmation_updates_of e uinput) else r)
                           (affirmations s),
                     calls := calls s @ [(Select, Affirmations), (Update, Affirmations)]\<rparr>)
            else (Inl INTERNAL_SERVER_ERROR,
                  s\<lparr>calls := calls s @ [(Select, Affirmations), (Update, Affirmations)]\<rparr>))
         \<and> (\<forall>r. a_collectionId (spread_affirmation r (affirmation_updates_of e uinput)) = Some []))
   \<and> (map_of kvs ''collectionId'' = None
     \<longrightarrow> server listAffirmations e (JObj ((''collectionId'', JStr []) # kvs)) context s
         = server listAffirmations e (JObj kvs) context s)
   \<and> (map_of kvs ''favoritesOnly'' = None
     \<longrightarrow> server listAffirmations e (JObj ((''favoritesOnly'', JBool False) # kvs)) context s
         = server listAffirmations e (JObj kvs) context s)"
proof (intro conjI impI)
  assume h: "locals_user context = Some usr \<and> createAffirmationSchema raw = Inr cinput
      \<and> field raw ''collectionId'' = JStr []"
  then have u: "locals_user context = Some usr"
    and p: "createAffirmationSchema raw = Inr cinput" by simp_all
  from h createAffirmationSchema_Inr(2)[OF p] have c: "ca_collectionId cinput = Some []"
    by (auto simp: bindE_def)
  then show "server createAffirmation e raw context s =
           (if collection_exists [] s
            then (Inr (AffirmationData (created_affirmation e usr cinput)),
                  s\<lparr>affirmations := affirmations s @ [created_affirmation e usr cinput],
                     calls := calls s @ [(Insert, Affirmations)]\<rparr>)
            else (Inl INTERNAL_SERVER_ERROR,
                  s\<lparr>calls := calls s @ [(Insert, Affirmations)]\<rparr>))"
    by (simp add: defineAction_def p createAffirmation_handler_auth[OF u])
  from c show "a_collectionId (created_affirmation e usr cinput) = Some []"
    by simp
next
  assume h: "locals_user context = Some usr \<and> updateAffirmationSchema raw = Inr uinput
      \<and> field raw ''collectionId'' = JStr []
      \<and> filter (\<lambda>r. a_id r = ua_id uinput \<and> a_userId r = u_id usr) (affirmations s)
           = existing # rest"
  then have u: "locals_user context = Some usr"
    and p: "updateAffirmationSchema raw = Inr uinput"
    and f: "filter (\<lambda>r. a_id r = ua_id uinput \<and> a_userId r = u_id usr) (affirmations s)
           = existing # rest" by simp_all
  from h updateAffirmationSchema_Inr(3)[OF p] have c: "ua_collectionId uinput = Some (Val [])"
    by (auto simp: bindE_def)
  then show "server updateAffirmation e raw context s =
           (if collection_exists [] s
            then (Inr (AffirmationData
                         (spread_affirmation existing (affirmation_updates_of e uinput))),
                  s\<lparr>affirmations :=
                       map (\<lambda>r. if a_id r = ua_id uinput \<and> a_userId r = u_id usr
                                 then spread_affirmation r (affirmation_updates_of e uinput) else r)
                           (affirmations s),
                     calls := calls s @ [(Select, Affirmations), (Update, Affirmations)]\<rparr>)
            else (Inl INTERNAL_SERVER_ERROR,
                  s\<lparr>calls := calls s @ [(Select, Affirmations), (Update, Affirmations)]\<rparr>))"
    using updateAffirmation_server_auth[OF u p f, of e]
    by (simp del: server.simps)
  from c show "\<forall>r. a_collectionId (spread_affirmation r (affirmation_updates_of e uinput)) = Some []"
    by (simp add: spread_affirmation_def overlay_nullable_def)
next
  assume a: "map_of kvs ''collectionId'' = None"
  show "server listAffirmations e (JObj ((''collectionId'', JStr []) # kvs)) context s
         = server listAffirmations e (JObj kvs) context s"
  proof (cases "z_optional z_boolean (field (JObj kvs) ''favoritesOnly'')")
    case (Inl x)
    with a show ?thesis
      by (simp add: defineAction_def listAffirmationsSchema_def bindE_def z_object_def)
  next
    case (Inr f)
    with a show ?thesis
      by (simp add: defineAction_def listAffirmationsSchema_def bindE_def z_object_def
          listAffirmations_handler_falsy)
  qed
next
  assume a: "map_of kvs ''favoritesOnly'' = None"
  show "server listAffirmations e (JObj ((''favoritesOnly'', JBool False) # kvs)) context s
         = server listAffirmations e (JObj kvs) context s"
  proof (cases "z_optional z_string (field (JObj kvs) ''collectionId'')")
    case (Inl x)
    with a show ?thesis
      by (simp add: defineAction_def listAffirmationsSchema_def bindE_def z_object_def)
  next
    case (Inr c)
    with a show ?thesis
      by (simp add: defineAction_def listAffirmationsSchema_def bindE_def z_object_def
          listAffirmations_handler_falsy)
  qed
qed



lemma db_empty_id_tables:
  "collections db_empty_id = [col_empty_id]" "affirmations db_empty_id = [aff_bob2]"
  "calls db_empty_id = []" "c_id col_empty_id = []" "c_userId col_empty_id = ''bob''"
  by (simp_all add: db_empty_id_def col_empty_id_def)

lemma db_empty_id_exists: "collection_exists [] db_empty_id"
  by (simp add: collection_exists_def db_empty_id_tables)

theorem falsy_values_treated_as_absent_witness:
  "server createAffirmation env1
       (JObj [(''text'', JStr ''I am calm''), (''collectionId'', JStr [])])
       (signed_in ''bob'') db_empty_id
     = (Inr (AffirmationData
          \<lparr>a_id = ''id-1'', a_collectionId = Some [], a_userId = ''bob'',
           a_text = ''I am calm'', a_category = None, a_language = None, a_tags = None,
           a_useTimeOfDay = None, a_isFavorite = False, a_isSystem = False,
           a_createdAt = 1000, a_updatedAt = 1000\<rparr>),
        db_empty_id\<lparr>affirmations :=
             [aff_bob2,
              \<lparr>a_id = ''id-1'', a_collectionId = Some [], a_userId = ''bob'',
               a_text = ''I am calm'', a_category = None, a_language = None, a_tags = None,
               a_useTimeOfDay = None, a_isFavorite = False, a_isSystem = False,
               a_createdAt = 1000, a_updatedAt = 1000\<rparr>],
            calls := [(Insert, Affirmations)]\<rparr>)
   \<and> server createAffirmation env1
       (JObj [(''text'', JStr ''I am calm''), (''collectionId'', JStr [])]) (signed_in ''bob'') db1
     = (Inl INTERNAL_SERVER_ERROR, db1\<lparr>calls := [(Insert, Affirmations)]\<rparr>)
   \<and> server updateAffirmation env1
       (JObj [(''id'', JStr ''a-bob-1''), (''collectionId'', JStr [])]) (signed_in ''bob'') db1
     = (Inl INTERNAL_SERVER_ERROR,
        db1\<lparr>calls := [(Select, Affirmations), (Update, Affirmations)]\<rparr>)
   \<and> server listAffirmations env1 (JObj [(''collectionId'', JStr [])]) (signed_in ''bob'') db1
     = server listAffirmations env1 (JObj []) (signed_in ''bob'') db1
   \<and> server listAffirmations env1 (JObj [(''favoritesOnly'', JBool False)]) (signed_in ''bob'') db1
     = server listAffirmations env1 (JObj []) (signed_in ''bob'') db1"
proof -
  have f: "filter (\<lambda>r. a_id r = ua_id
             \<lparr>ua_id = ''a-bob-1'', ua_text = None, ua_collectionId = Some (Val []),
              ua_category = None, ua_language = None, ua_tags = None, ua_useTimeOfDay = None,
              ua_isFavorite = None\<rparr> \<and> a_userId r = u_id \<lparr>u_id = ''bob''\<rparr>) (affirmations db1)
           = aff_bob1 # []"
    using db1_bob1_found by simp
  note t0 = falsy_values_treated_as_absent
      [of "signed_in ''bob''" "\<lparr>u_id = ''bob''\<rparr>"
          "JObj [(''text'', JStr ''I am calm''), (''collectionId'', JStr [])]"
          "\<lparr>ca_text = ''I am calm'', ca_collectionId = Some [], ca_category = None,
            ca_language = None, ca_tags = None, ca_useTimeOfDay = None, ca_isFavorite = None\<rparr>"
          env1 db_empty_id _ _ _ "[]"]
  note t1 = falsy_values_treated_as_absent
      [of "signed_in ''bob''" "\<lparr>u_id = ''bob''\<rparr>"
          "JObj [(''text'', JStr ''I am calm''), (''collectionId'', JStr [])]"
          "\<lparr>ca_text = ''I am calm'', ca_collectionId = Some [], ca_category = None,
            ca_language = None, ca_tags = None, ca_useTimeOfDay = None, ca_isFavorite = None\<rparr>"
          env1 db1 _ _ _ "[]"]
  note t2 = falsy_values_treated_as_absent
      [of "signed_in ''bob''" "\<lparr>u_id = ''bob''\<rparr>"
          "JObj [(''id'', JStr ''a-bob-1''), (''collectionId'', JStr [])]"
          _ env1 db1
          "\<lparr>ua_id = ''a-bob-1'', ua_text = None, ua_collectionId = Some (Val []),
            ua_category = None, ua_language = None, ua_tags = None, ua_useTimeOfDay = None,
            ua_isFavorite = None\<rparr>"
          aff_bob1 "[]" "[]"]
  have z: "server createAffirmation env1
       (JObj [(''text'', JStr ''I am calm''), (''collectionId'', JStr [])])
       (signed_in ''bob'') db_empty_id
     = (Inr (AffirmationData
          \<lparr>a_id = ''id-1'', a_collectionId = Some [], a_userId = ''bob'',
           a_text = ''I am calm'', a_category = None, a_language = None, a_tags = None,
           a_useTimeOfDay = None, a_isFavorite = False, a_isSystem = False,
           a_createdAt = 1000, a_updatedAt = 1000\<rparr>),
        db_empty_id\<lparr>affirmations :=
             [aff_bob2,
              \<lparr>a_id = ''id-1'', a_collectionId = Some [], a_userId = ''bob'',
               a_text = ''I am calm'', a_category = None, a_language = None, a_tags = None,
               a_useTimeOfDay = None, a_isFavorite = False, a_isSystem = False,
               a_createdAt = 1000, a_updatedAt = 1000\<rparr>],
            calls := [(Insert, Affirmations)]\<rparr>)"
    using t0 db_empty_id_exists
    by (simp add: signed_in_user sample_create_inputs env1_def db_empty_id_tables
        del: server.simps)
  have a: "server createAffirmation env1
       (JObj [(''text'', JStr ''I am calm''), (''collectionId'', JStr [])]) (signed_in ''bob'') db1
     = (Inl INTERNAL_SERVER_ERROR, db1\<lparr>calls := [(Insert, Affirmations)]\<rparr>)"
    using t1 db1_no_empty_id
    by (simp add: signed_in_user sample_create_inputs db1_tables del: server.simps)
  have b: "server updateAffirmation env1
       (JObj [(''id'', JStr ''a-bob-1''), (''collectionId'', JStr [])]) (signed_in ''bob'') db1
     = (Inl INTERNAL_SERVER_ERROR,
        db1\<lparr>calls := [(Select, Affirmations), (Update, Affirmations)]\<rparr>)"
    using t2 f db1_no_empty_id
    by (simp add: signed_in_user sample_update_inputs db1_tables del: server.simps)
  have c: "server listAffirmations env1 (JObj [(''collectionId'', JStr [])]) (signed_in ''bob'') db1
     = server listAffirmations env1 (JObj []) (signed_in ''bob'') db1"
    and d: "server listAffirmations env1 (JObj [(''favoritesOnly'', JBool False)]) (signed_in ''bob'') db1
     = server listAffirmations env1 (JObj []) (signed_in ''bob'') db1"
    using t1 by (simp_all del: server.simps)
  from z a b c d show ?thesis by (simp del: server.simps)
qed

text \<open>
  Claim C10 as stated fails in its create and update parts: in a store where no
  collection has the empty string as its id, the row with \<^verbatim>\<open>collectionId = ""\<close> is not
  persisted. The ownership lookup is skipped, the write is sent, and the store refuses
  it: both calls fail and leave every row as it was.
\<close>

theorem falsy_collectionId_not_persisted_counterexample:
  "server createAffirmation env1
       (JObj [(''text'', JStr ''I am calm''), (''collectionId'', JStr [])]) (signed_in ''bob'') db1
     = (Inl INTERNAL_SERVER_ERROR, db1\<lparr>calls := [(Insert, Affirmations)]\<rparr>)
   \<and> server updateAffirmation env1
       (JObj [(''id'', JStr ''a-bob-1''), (''collectionId'', JStr [])]) (signed_in ''bob'') db1
     = (Inl INTERNAL_SERVER_ERROR,
        db1\<lparr>calls := [(Select, Affirmations), (Update, Affirmations)]\<rparr>)"
  using db1_no_empty_id db1_bob1_found
  by (simp add: defineAction_def sample_create_inputs sample_update_inputs
      createAffirmation_handler_auth[OF signed_in_user]
      updateAffirmation_handler_auth[OF signed_in_user] db1_tables)

section \<open>Ownership isolation\<close>

lemma filter_Cons_holds: "filter P xs = y # ys \<Longrightarrow> P y"
proof -
  assume "filter P xs = y # ys"
  then have "y \<in> set (filter P xs)" by simp
  then show "P y" by simp
qed

lemma others_updated_collections:
  "filter (\<lambda>r. c_userId r \<noteq> uid)
     (map (\<lambda>r. if c_id r = i \<and> c_userId r = uid then spread_collection r u else r) xs)
   = filter (\<lambda>r. c_userId r \<noteq> uid) xs"
  by (induction xs) (simp_all add: spread_collection_key)

lemma others_updated_affirmations:
  "filter (\<lambda>r. a_userId r \<noteq> uid)
     (map (\<lambda>r. if a_id r = i \<and> a_userId r = uid then spread_affirmation r u else r) xs)
   = filter (\<lambda>r. a_userId r \<noteq> uid) xs"
  by (induction xs) (simp_all add: spread_affirmation_key)

lemma others_deleted_merged:
  "filter (\<lambda>r. (P r \<longrightarrow> owner r \<noteq> uid) \<and> owner r \<noteq> uid) xs
   = filter (\<lambda>r. owner r \<noteq> uid) xs"
  by (rule filter_cong) auto

lemma isolated_error: "isolated uid s (Inl err, s\<lparr>calls := cs\<rparr>)"
  by (simp add: isolated_def rows_of_others_def)

lemma isolated_unchanged: "isolated uid s (Inl err, s)"
  by (simp add: isolated_def)

lemma createCollection_isolated:
  assumes "locals_user context = Some usr"
  shows "isolated (u_id usr) s (createCollection_handler e input context s)"
  by (simp add: createCollection_handler_auth[OF assms] isolated_def rows_of_others_def)

lemma updateCollection_isolated:
  assumes "locals_user context = Some usr"
  shows "isolated (u_id usr) s (updateCollection_handler e input context s)"
proof (cases "filter (\<lambda>r. c_id r = uc_id input \<and> c_userId r = u_id usr) (collections s)")
  case Nil
  then show ?thesis
    by (simp add: updateCollection_handler_auth[OF assms] isolated_error)
next
  case (Cons existing rest)
  from filter_Cons_holds[OF Cons] have "c_userId existing = u_id usr" by simp
  with Cons show ?thesis
    by (simp add: updateCollection_handler_auth[OF assms] isolated_def rows_of_others_def
        others_updated_collections spread_collection_key)
qed

lemma deleteCollection_isolated:
  assumes "locals_user context = Some usr"
  shows "isolated (u_id usr) s (deleteCollection_handler e input context s)"
proof (cases "filter (\<lambda>r. c_id r = in_id input \<and> c_userId r = u_id usr) (collections s)")
  case Nil
  then show ?thesis
    by (simp add: deleteCollection_handler_auth[OF assms] isolated_error)
next
  case (Cons existing rest)
  then show ?thesis
    by (simp add: deleteCollection_handler_auth[OF assms] isolated_def rows_of_others_def
        others_deleted_merged[where owner = c_userId] others_deleted_merged[where owner = a_userId])
qed

lemma listCollections_isolated:
  assumes "locals_user context = Some usr"
  shows "isolated (u_id usr) s (listCollections_handler e input context s)"
  by (simp add: listCollections_handler_auth[OF assms] isolated_def rows_of_others_def
      list_all_iff)

lemma createAffirmation_isolated:
  assumes "locals_user context = Some usr"
  shows "isolated (u_id usr) s (createAffirmation_handler e input context s)"
  by (simp add: createAffirmation_handler_auth[OF assms] isolated_def rows_of_others_def
      split: list.splits)

lemma updateAffirmation_isolated:
  assumes "locals_user context = Some usr"
  shows "isolated (u_id usr) s (updateAffirmation_handler e input context s)"
proof (cases "filter (\<lambda>r. a_id r = ua_id input \<and> a_userId r = u_id usr) (affirmations s)")
  case Nil
  then show ?thesis
    by (simp add: updateAffirmation_handler_auth[OF assms] isolated_error)
next
  case (Cons existing rest)
  from filter_Cons_holds[OF Cons] have "a_userId existing = u_id usr" by simp
  with Cons show ?thesis
    by (simp add: updateAffirmation_handler_auth[OF assms] isolated_def rows_of_others_def
        others_updated_affirmations spread_affirmation_key split: list.splits)
qed

lemma deleteAffirmation_isolated:
  assumes "locals_user context = Some usr"
  shows "isolated (u_id usr) s (deleteAffirmation_handler e input context s)"
proof (cases "filter (\<lambda>r. a_id r = in_id input \<and> a_userId r = u_id usr) (affirmations s)")
  case Nil
  then show ?thesis
    by (simp add: deleteAffirmation_handler_auth[OF assms] isolated_error)
next
  case (Cons existing rest)
  then show ?thesis
    by (simp add: deleteAffirmation_handler_auth[OF assms] isolated_def rows_of_others_def
        others_deleted_merged[where owner = a_userId])
qed

lemma listAffirmations_isolated:
  assumes "locals_user context = Some usr"
  shows "isolated (u_id usr) s (listAffirmations_handler e input context s)"
  by (simp add: listAffirmations_handler_auth[OF assms] isolated_def rows_of_others_def
      list_all_iff listAffirmations_filters_eq)

lemma defineAction_isolated:
  assumes "\<And>input. isolated uid s (h input context s)"
  shows "isolated uid s (defineAction schema h raw context s)"
  using assms by (cases "schema raw") (simp_all add: defineAction_def isolated_unchanged)

lemma server_isolated:
  assumes "locals_user context = Some usr"
  shows "isolated (u_id usr) s (server a e raw context s)"
  by (cases a)
    (simp_all add: defineAction_isolated createCollection_isolated[OF assms]
      updateCollection_isolated[OF assms] deleteCollection_isolated[OF assms]
      listCollections_isolated[OF assms] createAffirmation_isolated[OF assms]
      updateAffirmation_isolated[OF assms] deleteAffirmation_isolated[OF assms]
      listAffirmations_isolated[OF assms])


lemma primary_key_foreign_owner:
  assumes "distinct (map c_id xs)" and "c \<in> set xs" and "c_userId c \<noteq> uid"
  shows "filter (\<lambda>r. c_id r = c_id c \<and> c_userId r = uid) xs = []"
proof -
  have "r = c" if "r \<in> set xs" and "c_id r = c_id c" for r
    using assms(1,2) that by (auto simp: distinct_map dest: inj_onD)
  with assms(3) show ?thesis
    by (auto simp: filter_empty_conv)
qed

text \<open>
  Claim C1. Let user B be authenticated. Whatever the action, the environment, the raw
  input and the store, the rows of both tables owned by anyone other than B are after the
  call exactly the rows that were there before, in the same order (none modified, none
  deleted, none added), and every row in a success payload is owned by B. In particular,
  when the collections table has no two rows with the same id (the id column is its
  primary key), \<^verbatim>\<open>updateCollection\<close> called by B with a valid input naming a collection
  of another user fails with \<open>NOT_FOUND\<close>; it has made one select and changed no row.
\<close>

theorem ownership_isolation:
  assumes "locals_user context = Some usr"
  shows "rows_of_others (u_id usr) (snd (server a e raw context s)) = rows_of_others (u_id usr) s
    \<and> (case fst (server a e raw context s) of
          Inl err \<Rightarrow> True
        | Inr p \<Rightarrow> payload_owned_by (u_id usr) p)
    \<and> (updateCollectionSchema raw = Inr input \<and> c \<in> set (collections s)
          \<and> uc_id input = c_id c \<and> c_userId c \<noteq> u_id usr
          \<and> distinct (map c_id (collections s))
        \<longrightarrow> server updateCollection e raw context s =
              (Inl NOT_FOUND, s\<lparr>calls := calls s @ [(Select, AffirmationCollections)]\<rparr>))"
proof (intro conjI impI)
  from server_isolated[OF assms, of s a e raw]
  show "rows_of_others (u_id usr) (snd (server a e raw context s)) = rows_of_others (u_id usr) s"
    and "case fst (server a e raw context s) of
          Inl err \<Rightarrow> True
        | Inr p \<Rightarrow> payload_owned_by (u_id usr) p"
    by (simp_all add: isolated_def del: server.simps)
next
  assume h: "updateCollectionSchema raw = Inr input \<and> c \<in> set (collections s)
          \<and> uc_id input = c_id c \<and> c_userId c \<noteq> u_id usr
          \<and> distinct (map c_id (collections s))"
  then have "filter (\<lambda>r. c_id r = uc_id input \<and> c_userId r = u_id usr) (collections s) = []"
    by (simp add: primary_key_foreign_owner)
  with h show "server updateCollection e raw context s =
              (Inl NOT_FOUND, s\<lparr>calls := calls s @ [(Select, AffirmationCollections)]\<rparr>)"
    by (simp add: defineAction_def updateCollection_handler_auth[OF assms])
qed

lemma sample_updateCollection_input:
  "updateCollectionSchema (JObj [(''id'', JStr ''c-alice''), (''name'', JStr ''Mine'')])
     = Inr \<lparr>uc_id = ''c-alice'', uc_name = Some ''Mine'', uc_description = None,
            uc_icon = None, uc_isDefault = None\<rparr>"
  by (simp add: updateCollectionSchema_def bindE_def z_object_def z_string_min1_def)

theorem ownership_isolation_witness:
  "server updateCollection env1 (JObj [(''id'', JStr ''c-alice''), (''name'', JStr ''Mine'')])
       (signed_in ''bob'') db1
     = (Inl NOT_FOUND, db1\<lparr>calls := [(Select, AffirmationCollections)]\<rparr>)
   \<and> rows_of_others ''bob''
        (snd (server deleteCollection env1 (JObj [(''id'', JStr ''c-bob'')]) (signed_in ''bob'') db1))
     = ([col_alice], [aff_alice, aff_alice_in_bob])
   \<and> (case fst (server listAffirmations env1 JUndefined (signed_in ''bob'') db1) of
         Inl err \<Rightarrow> True
       | Inr p \<Rightarrow> payload_owned_by ''bob'' p)"
proof -
  have m: "col_alice \<in> set (collections db1)" "c_userId col_alice \<noteq> u_id \<lparr>u_id = ''bob''\<rparr>"
    "distinct (map c_id (collections db1))"
    by (simp_all add: db1_tables sample_rows)
  have o: "rows_of_others ''bob'' db1 = ([col_alice], [aff_alice, aff_alice_in_bob])"
    by (simp add: rows_of_others_def db1_tables sample_rows)
  have a: "server updateCollection env1 (JObj [(''id'', JStr ''c-alice''), (''name'', JStr ''Mine'')])
       (signed_in ''bob'') db1
     = (Inl NOT_FOUND, db1\<lparr>calls := [(Select, AffirmationCollections)]\<rparr>)"
    using ownership_isolation[OF signed_in_user, of "''bob''" updateCollection env1
            "JObj [(''id'', JStr ''c-alice''), (''name'', JStr ''Mine'')]" db1
            "\<lparr>uc_id = ''c-alice'', uc_name = Some ''Mine'', uc_description = None,
              uc_icon = None, uc_isDefault = None\<rparr>" col_alice]
          m
    by (simp add: sample_updateCollection_input sample_rows db1_tables(3)
        del: server.simps)
  have b: "rows_of_others ''bob''
        (snd (server deleteCollection env1 (JObj [(''id'', JStr ''c-bob'')]) (signed_in ''bob'') db1))
     = ([col_alice], [aff_alice, aff_alice_in_bob])"
    using ownership_isolation[OF signed_in_user, of "''bob''" deleteCollection env1
            "JObj [(''id'', JStr ''c-bob'')]" db1] o
    by (simp del: server.simps)
  have c: "case fst (server listAffirmations env1 JUndefined (signed_in ''bob'') db1) of
         Inl err \<Rightarrow> True
       | Inr p \<Rightarrow> payload_owned_by ''bob'' p"
    using ownership_isolation[OF signed_in_user, of "''bob''" listAffirmations env1
            JUndefined db1 _ col_alice, THEN conjunct2, THEN conjunct1]
    by (simp del: server.simps cong: sum.case_cong)
  from a b c show ?thesis by (simp del: server.simps)
qed

section \<open>Deleting a collection\<close>

lemma idSchema_accepts:
  "is_object raw \<Longrightarrow> field raw ''id'' = JStr k \<Longrightarrow> idSchema raw = Inr \<lparr>in_id = k\<rparr>"
  by (simp add: idSchema_def bindE_def z_object_def)

lemma filter_member_Cons:
  assumes "x \<in> set xs" and "P x"
  shows "\<exists>y ys. filter P xs = y # ys"
proof (cases "filter P xs")
  case Nil
  with assms show ?thesis by (simp add: filter_empty_conv)
next
  case (Cons y ys)
  then show ?thesis by blast
qed

lemma listAffirmations_by_collection_input:
  "listAffirmationsSchema (JObj [(''collectionId'', JStr cid)])
     = Inr (Some \<lparr>la_collectionId = Some cid, la_favoritesOnly = None\<rparr>)"
  by (simp add: listAffirmationsSchema_def bindE_def z_object_def)

lemma listCollectionsSchema_undefined: "listCollectionsSchema JUndefined = Inr None"
  by (simp add: listCollectionsSchema_def)

text \<open>
  Claim C3, as amended. Let an authenticated caller own a collection with id C, and let
  the input name C. Then \<^verbatim>\<open>deleteCollection\<close> makes, after the lookup, the delete on
  the affirmations table and then the delete on the collections table, in this order. The
  first removes exactly the affirmations with \<^verbatim>\<open>collectionId\<close> = C owned by the caller;
  the affirmations of other users are all still there. When no affirmation of another
  user points at C, the second removes exactly the collections with id C owned by the
  caller and the call returns the bare success; in the store it leaves,
  \<^verbatim>\<open>listAffirmations\<close> with \<^verbatim>\<open>collectionId\<close> = C by the same caller returns no item and
  total 0 provided C is not the empty string, and \<^verbatim>\<open>listCollections\<close> by the same
  caller returns the caller's collections without C. When an affirmation of another user
  points at C, the store refuses the second delete: the call fails with the store's
  error, the collection row stays, and the caller's affirmations of C stay deleted.
\<close>

theorem deleteCollection_cascades:
  fixes s :: db and usr :: App_User and cid :: string
  assumes "locals_user context = Some usr"
    and "is_object raw" and "field raw ''id'' = JStr cid"
    and "c \<in> set (collections s)" and "c_id c = cid" and "c_userId c = u_id usr"
  defines "kept \<equiv>
     filter (\<lambda>r. \<not> (a_collectionId r = Some cid \<and> a_userId r = u_id usr)) (affirmations s)"
    and "made \<equiv> calls s @ [(Select, AffirmationCollections), (Delete, Affirmations),
                           (Delete, AffirmationCollections)]"
  defines "s' \<equiv>
     s\<lparr>collections := filter (\<lambda>r. \<not> (c_id r = cid \<and> c_userId r = u_id usr)) (collections s),
       affirmations := kept, calls := made\<rparr>"
  shows "calls (snd (server deleteCollection e raw context s)) = made
    \<and> affirmations (snd (server deleteCollection e raw context s)) = kept
    \<and> filter (\<lambda>r. a_userId r \<noteq> u_id usr) kept
        = filter (\<lambda>r. a_userId r \<noteq> u_id usr) (affirmations s)
    \<and> ((\<forall>a \<in> set (affirmations s). a_collectionId a = Some cid \<longrightarrow> a_userId a = u_id usr)
        \<longrightarrow> server deleteCollection e raw context s = (Inr NoData, s')
          \<and> (cid \<noteq> [] \<longrightarrow>
               server listAffirmations e2 (JObj [(''collectionId'', JStr cid)]) context s'
                 = (Inr (AffirmationItems [] 0),
                    s'\<lparr>calls := calls s' @ [(Select, Affirmations)]\<rparr>))
          \<and> server listCollections e3 JUndefined context s'
              = (Inr (CollectionItems
                        (filter (\<lambda>r. c_userId r = u_id usr \<and> c_id r \<noteq> cid) (collections s))
                        (length (filter (\<lambda>r. c_userId r = u_id usr \<and> c_id r \<noteq> cid)
                                   (collections s)))),
                 s'\<lparr>calls := calls s' @ [(Select, AffirmationCollections)]\<rparr>))
    \<and> ((\<exists>a \<in> set (affirmations s). a_collectionId a = Some cid \<and> a_userId a \<noteq> u_id usr)
        \<longrightarrow> server deleteCollection e raw context s
              = (Inl INTERNAL_SERVER_ERROR, s\<lparr>affirmations := kept, calls := made\<rparr>))"
proof -
  from assms(5,6) have "c_id c = cid \<and> c_userId c = u_id usr" by simp
  from filter_member_Cons[where P = "\<lambda>r. c_id r = cid \<and> c_userId r = u_id usr",
      OF assms(4) this]
  obtain y ys
    where f: "filter (\<lambda>r. c_id r = cid \<and> c_userId r = u_id usr) (collections s) = y # ys"
    by blast
  have r: "server deleteCollection e raw context s =
      (if list_ex (\<lambda>a. a_collectionId a = Some cid \<and> a_userId a \<noteq> u_id usr) (affirmations s)
       then (Inl INTERNAL_SERVER_ERROR, s\<lparr>affirmations := kept, calls := made\<rparr>)
       else (Inr NoData, s'))"
    unfolding s'_def kept_def made_def using f
    by (simp add: defineAction_def idSchema_accepts[OF assms(2,3)]
        deleteCollection_handler_auth[OF assms(1)])
  have c1: "calls (snd (server deleteCollection e raw context s)) = made"
    and c2: "affirmations (snd (server deleteCollection e raw context s)) = kept"
    unfolding r s'_def by simp_all
  have c3: "filter (\<lambda>r. a_userId r \<noteq> u_id usr) kept
        = filter (\<lambda>r. a_userId r \<noteq> u_id usr) (affirmations s)"
    unfolding kept_def by (auto intro: filter_cong)
  have c4: "server deleteCollection e raw context s = (Inr NoData, s')"
    if "\<forall>a \<in> set (affirmations s). a_collectionId a = Some cid \<longrightarrow> a_userId a = u_id usr"
  proof -
    from that have "\<not> list_ex (\<lambda>a. a_collectionId a = Some cid \<and> a_userId a \<noteq> u_id usr)
                        (affirmations s)"
      unfolding list_ex_iff by blast
    with r show ?thesis by simp
  qed
  have c5: "server listAffirmations e2 (JObj [(''collectionId'', JStr cid)]) context s'
                 = (Inr (AffirmationItems [] 0),
                    s'\<lparr>calls := calls s' @ [(Select, Affirmations)]\<rparr>)"
    if "cid \<noteq> []"
  proof -
    from that have "filter (and_filters (listAffirmations_filters
           (Some \<lparr>la_collectionId = Some cid, la_favoritesOnly = None\<rparr>) usr)) (affirmations s') = []"
      unfolding s'_def kept_def
      by (auto simp: filter_empty_conv listAffirmations_filters_eq)
    then show ?thesis
      by (simp add: defineAction_def listAffirmations_by_collection_input
          listAffirmations_handler_auth[OF assms(1)])
  qed
  have "filter (\<lambda>r. c_userId r = u_id usr) (collections s')
          = filter (\<lambda>r. c_userId r = u_id usr \<and> c_id r \<noteq> cid) (collections s)"
    unfolding s'_def by (auto intro: filter_cong)
  then have c6: "server listCollections e3 JUndefined context s'
              = (Inr (CollectionItems
                        (filter (\<lambda>r. c_userId r = u_id usr \<and> c_id r \<noteq> cid) (collections s))
                        (length (filter (\<lambda>r. c_userId r = u_id usr \<and> c_id r \<noteq> cid)
                                   (collections s)))),
                 s'\<lparr>calls := calls s' @ [(Select, AffirmationCollections)]\<rparr>)"
    by (simp add: defineAction_def listCollectionsSchema_undefined
        listCollections_handler_auth[OF assms(1)])
  have c7: "server deleteCollection e raw context s
              = (Inl INTERNAL_SERVER_ERROR, s\<lparr>affirmations := kept, calls := made\<rparr>)"
    if "\<exists>a \<in> set (affirmations s). a_collectionId a = Some cid \<and> a_userId a \<noteq> u_id usr"
  proof -
    from that have "list_ex (\<lambda>a. a_collectionId a = Some cid \<and> a_userId a \<noteq> u_id usr)
                        (affirmations s)"
      unfolding list_ex_iff by blast
    with r show ?thesis by simp
  qed
  from c1 c2 c3 c4 c5 c6 c7 show ?thesis by blast
qed

theorem deleteCollection_cascades_witness:
  "server deleteCollection env1 (JObj [(''id'', JStr ''c-alice'')]) (signed_in ''alice'') db1
     = (Inr NoData,
        \<lparr>collections = [col_bob],
         affirmations = [aff_bob1, aff_bob2, aff_alice_in_bob],
         calls = [(Select, AffirmationCollections), (Delete, Affirmations),
                  (Delete, AffirmationCollections)]\<rparr>)
   \<and> server listAffirmations env1 (JObj [(''collectionId'', JStr ''c-alice'')]) (signed_in ''alice'')
        \<lparr>collections = [col_bob],
         affirmations = [aff_bob1, aff_bob2, aff_alice_in_bob],
         calls = [(Select, AffirmationCollections), (Delete, Affirmations),
                  (Delete, AffirmationCollections)]\<rparr>
     = (Inr (AffirmationItems [] 0),
        \<lparr>collections = [col_bob],
         affirmations = [aff_bob1, aff_bob2, aff_alice_in_bob],
         calls = [(Select, AffirmationCollections), (Delete, Affirmations),
                  (Delete, AffirmationCollections), (Select, Affirmations)]\<rparr>)
   \<and> server listCollections env1 JUndefined (signed_in ''alice'')
        \<lparr>collections = [col_bob],
         affirmations = [aff_bob1, aff_bob2, aff_alice_in_bob],
         calls = [(Select, AffirmationCollections), (Delete, Affirmations),
                  (Delete, AffirmationCollections)]\<rparr>
     = (Inr (CollectionItems [] 0),
        \<lparr>collections = [col_bob],
         affirmations = [aff_bob1, aff_bob2, aff_alice_in_bob],
         calls = [(Select, AffirmationCollections), (Delete, Affirmations),
                  (Delete, AffirmationCollections), (Select, AffirmationCollections)]\<rparr>)
   \<and> server deleteCollection env1 (JObj [(''id'', JStr ''c-bob'')]) (signed_in ''bob'') db1
     = (Inl INTERNAL_SERVER_ERROR,
        \<lparr>collections = [col_alice, col_bob],
         affirmations = [aff_alice, aff_bob2, aff_alice_in_bob],
         calls = [(Select, AffirmationCollections), (Delete, Affirmations),
                  (Delete, AffirmationCollections)]\<rparr>)"
proof -
  have ma: "col_alice \<in> set (collections db1)" "c_id col_alice = ''c-alice''"
    "c_userId col_alice = u_id \<lparr>u_id = ''alice''\<rparr>"
    and mb: "col_bob \<in> set (collections db1)" "c_id col_bob = ''c-bob''"
    "c_userId col_bob = u_id \<lparr>u_id = ''bob''\<rparr>"
    and o: "is_object (JObj [(''id'', JStr k)])" "field (JObj [(''id'', JStr k)]) ''id'' = JStr k"
    for k
    by (simp_all add: db1_tables sample_rows)
  have da: "db1\<lparr>collections :=
               filter (\<lambda>r. \<not> (c_id r = ''c-alice'' \<and> c_userId r = u_id \<lparr>u_id = ''alice''\<rparr>))
                 (collections db1),
             affirmations :=
               filter (\<lambda>r. \<not> (a_collectionId r = Some ''c-alice''
                               \<and> a_userId r = u_id \<lparr>u_id = ''alice''\<rparr>))
                 (affirmations db1),
             calls := calls db1 @ [(Select, AffirmationCollections), (Delete, Affirmations),
                           (Delete, AffirmationCollections)]\<rparr>
        = \<lparr>collections = [col_bob],
         affirmations = [aff_bob1, aff_bob2, aff_alice_in_bob],
         calls = [(Select, AffirmationCollections), (Delete, Affirmations),
                  (Delete, AffirmationCollections)]\<rparr>"
    by (simp add: db1_def sample_rows)
  have la: "filter (\<lambda>r. c_userId r = u_id \<lparr>u_id = ''alice''\<rparr> \<and> c_id r \<noteq> ''c-alice'')
              (collections db1) = []"
    by (simp add: db1_tables sample_rows)
  have na: "\<forall>a \<in> set (affirmations db1).
              a_collectionId a = Some ''c-alice'' \<longrightarrow> a_userId a = u_id \<lparr>u_id = ''alice''\<rparr>"
    by (simp add: db1_tables sample_rows)
  have db: "db1\<lparr>affirmations :=
               filter (\<lambda>r. \<not> (a_collectionId r = Some ''c-bob''
                               \<and> a_userId r = u_id \<lparr>u_id = ''bob''\<rparr>))
                 (affirmations db1),
             calls := calls db1 @ [(Select, AffirmationCollections), (Delete, Affirmations),
                           (Delete, AffirmationCollections)]\<rparr>
        = \<lparr>collections = [col_alice, col_bob],
         affirmations = [aff_alice, aff_bob2, aff_alice_in_bob],
         calls = [(Select, AffirmationCollections), (Delete, Affirmations),
                  (Delete, AffirmationCollections)]\<rparr>"
    by (simp add: db1_def sample_rows)
  have nb: "\<exists>a \<in> set (affirmations db1).
              a_collectionId a = Some ''c-bob'' \<and> a_userId a \<noteq> u_id \<lparr>u_id = ''bob''\<rparr>"
    by (simp add: db1_tables sample_rows)
  note ta = deleteCollection_cascades[OF signed_in_user o ma, of env1 env1 env1]
  note tb = deleteCollection_cascades[OF signed_in_user o mb, of env1 env1 env1]
  have a: "server deleteCollection env1 (JObj [(''id'', JStr ''c-alice'')]) (signed_in ''alice'') db1
     = (Inr NoData,
        \<lparr>collections = [col_bob],
         affirmations = [aff_bob1, aff_bob2, aff_alice_in_bob],
         calls = [(Select, AffirmationCollections), (Delete, Affirmations),
                  (Delete, AffirmationCollections)]\<rparr>)"
    and b: "server listAffirmations env1 (JObj [(''collectionId'', JStr ''c-alice'')]) (signed_in ''alice'')
        \<lparr>collections = [col_bob],
         affirmations = [aff_bob1, aff_bob2, aff_alice_in_bob],
         calls = [(Select, AffirmationCollections), (Delete, Affirmations),
                  (Delete, AffirmationCollections)]\<rparr>
     = (Inr (AffirmationItems [] 0),
        \<lparr>collections = [col_bob],
         affirmations = [aff_bob1, aff_bob2, aff_alice_in_bob],
         calls = [(Select, AffirmationCollections), (Delete, Affirmations),
                  (Delete, AffirmationCollections), (Select, Affirmations)]\<rparr>)"
    and c: "server listCollections env1 JUndefined (signed_in ''alice'')
        \<lparr>collections = [col_bob],
         affirmations = [aff_bob1, aff_bob2, aff_alice_in_bob],
         calls = [(Select, AffirmationCollections), (Delete, Affirmations),
                  (Delete, AffirmationCollections)]\<rparr>
     = (Inr (CollectionItems [] 0),
        \<lparr>collections = [col_bob],
         affirmations = [aff_bob1, aff_bob2, aff_alice_in_bob],
         calls = [(Select, AffirmationCollections), (Delete, Affirmations),
                  (Delete, AffirmationCollections), (Select, AffirmationCollections)]\<rparr>)"
    using ta na unfolding da la by (simp_all del: server.simps)
  have d: "server deleteCollection env1 (JObj [(''id'', JStr ''c-bob'')]) (signed_in ''bob'') db1
     = (Inl INTERNAL_SERVER_ERROR,
        \<lparr>collections = [col_alice, col_bob],
         affirmations = [aff_alice, aff_bob2, aff_alice_in_bob],
         calls = [(Select, AffirmationCollections), (Delete, Affirmations),
                  (Delete, AffirmationCollections)]\<rparr>)"
    using tb nb unfolding db by (simp del: server.simps)
  from a b c d show ?thesis by (simp del: server.simps)
qed

text \<open>
  Claim C3 as stated fails twice. When an affirmation of another user points at the
  collection, the collection delete is refused: the call returns no success, the
  collection row is still there, and the caller's affirmation of it is gone. And for a
  collection whose id is the empty string, \<^verbatim>\<open>listAffirmations\<close> with that
  \<^verbatim>\<open>collectionId\<close> after the deletion does not return the empty list: the empty string
  adds no filter.
\<close>

theorem deleteCollection_refused_counterexample:
  "server deleteCollection env1 (JObj [(''id'', JStr ''c-bob'')]) (signed_in ''bob'') db1
     = (Inl INTERNAL_SERVER_ERROR,
        \<lparr>collections = [col_alice, col_bob],
         affirmations = [aff_alice, aff_bob2, aff_alice_in_bob],
         calls = [(Select, AffirmationCollections), (Delete, Affirmations),
                  (Delete, AffirmationCollections)]\<rparr>)
   \<and> server deleteCollection env1 (JObj [(''id'', JStr [])]) (signed_in ''bob'') db_empty_id
     = (Inr NoData,
        \<lparr>collections = [], affirmations = [aff_bob2],
         calls = [(Select, AffirmationCollections), (Delete, Affirmations),
                  (Delete, AffirmationCollections)]\<rparr>)
   \<and> server listAffirmations env1 (JObj [(''collectionId'', JStr [])]) (signed_in ''bob'')
        \<lparr>collections = [], affirmations = [aff_bob2],
         calls = [(Select, AffirmationCollections), (Delete, Affirmations),
                  (Delete, AffirmationCollections)]\<rparr>
     = (Inr (AffirmationItems [aff_bob2] 1),
        \<lparr>collections = [], affirmations = [aff_bob2],
         calls = [(Select, AffirmationCollections), (Delete, Affirmations),
                  (Delete, AffirmationCollections), (Select, Affirmations)]\<rparr>)"
  by (simp add: defineAction_def idSchema_accepts sample_list_inputs
      deleteCollection_handler_auth[OF signed_in_user]
      listAffirmations_handler_auth[OF signed_in_user] listAffirmations_filters_eq
      db1_tables db_empty_id_tables sample_rows)

end
